theory Spec2Isabelle
  imports Complex_Main
begin

section \<open>Python values and exceptions\<close>

text \<open>
  The release-gate checker \<^verbatim>\<open>ci/release_gates/check_gates.py\<close> works on whatever
  \<^verbatim>\<open>json.load\<close> returns: \<^verbatim>\<open>None\<close>, booleans, integers of any size, floats, strings,
  lists and dictionaries. A dictionary is the list of its items in insertion order.
  Every exception the script can meet is a value of \<open>exc\<close>; a computation that may raise
  returns \<open>exc + 'a\<close>, with \<open>Inl\<close> for the raised exception.
\<close>

text \<open>
  A Python float is an IEEE 754 binary64 number: a sign and a magnitude (so that
  \<^verbatim>\<open>-0.0\<close> is \<open>Finite True 0\<close>), an infinity, or a NaN. The sign is \<open>True\<close> for
  negative.
\<close>

datatype pyfloat = Finite bool rat | Infinity bool | NaN

datatype json =
    JNull
  | JBool bool
  | JInt int
  | JFloat pyfloat
  | JStr string
  | JList "json list"
  | JDict "(string \<times> json) list"

datatype exc =
    AttributeError
  | TypeError
  | ZeroDivisionError
  | OverflowError
  | JSONDecodeError
  | OSError
  | UnicodeDecodeError
  | UnicodeEncodeError
  | RecursionError
  | ValueError

definition bindE :: "exc + 'a \<Rightarrow> ('a \<Rightarrow> exc + 'b) \<Rightarrow> exc + 'b" where
  "bindE m f = (case m of Inl e \<Rightarrow> Inl e | Inr x \<Rightarrow> f x)"

section \<open>Binary64 rounding\<close>

function bit_length :: "int \<Rightarrow> int" where
  "bit_length n = (if n \<le> 0 then 0 else 1 + bit_length (n div 2))"
  by pat_completeness auto
termination
  by (relation "measure nat") auto

declare bit_length.simps [simp del]

definition pow2 :: "int \<Rightarrow> rat" where
  "pow2 k = (if 0 \<le> k then 2 ^ nat k else 1 / 2 ^ nat (- k))"

text \<open>For \<open>0 < x\<close>, \<open>floor_log2 x\<close> is the \<open>e\<close> with \<open>2\<^sup>e \<le> x < 2\<^sup>e\<^sup>+\<^sup>1\<close>.\<close>

definition floor_log2 :: "rat \<Rightarrow> int" where
  "floor_log2 x =
     (let (a, b) = quotient_of x;
          k = bit_length a - bit_length b
      in if pow2 k \<le> x then k else k - 1)"

definition round_half_even :: "rat \<Rightarrow> int" where
  "round_half_even x =
     (let f = \<lfloor>x\<rfloor>; d = x - of_int f
      in if d < 1 / 2 then f
         else if 1 / 2 < d then f + 1
         else if even f then f else f + 1)"

text \<open>
  \<open>round_mag x\<close> rounds a magnitude \<open>0 \<le> x\<close> to the nearest multiple of the binary64
  spacing at \<open>x\<close> (53 significant bits, least exponent \<open>-1022\<close>, so subnormals are
  included), ties to even. The result is not yet bounded above: a result of
  \<open>2\<^sup>1\<^sup>0\<^sup>2\<^sup>4\<close> or more is an overflow, which each operation treats in its own way.
\<close>

definition round_mag :: "rat \<Rightarrow> rat" where
  "round_mag x =
     (if x = 0 then 0
      else let e = max (floor_log2 x) (- 1022);
               q = pow2 (e - 52)
           in of_int (round_half_even (x / q)) * q)"

definition overflows :: "rat \<Rightarrow> bool" where
  "overflows r = (2 ^ 1024 \<le> r)"

text \<open>IEEE arithmetic overflows to an infinity.\<close>

definition float_round :: "bool \<Rightarrow> rat \<Rightarrow> pyfloat" where
  "float_round s x = (let r = round_mag x in if overflows r then Infinity s else Finite s r)"

text \<open>\<^verbatim>\<open>float(i)\<close> for an integer: correctly rounded, OverflowError when too large.\<close>

definition float_of_int :: "int \<Rightarrow> exc + pyfloat" where
  "float_of_int i =
     (let r = round_mag (of_int \<bar>i\<bar>)
      in if overflows r then Inl OverflowError else Inr (Finite (i < 0) r))"

text \<open>
  \<^verbatim>\<open>a / b\<close> on two integers, \<open>b \<noteq> 0\<close>: the correctly rounded quotient, OverflowError
  when it is too large for a float.
\<close>

definition int_truediv :: "int \<Rightarrow> int \<Rightarrow> exc + pyfloat" where
  "int_truediv a b =
     (let s = ((a < 0) \<noteq> (b < 0));
          r = round_mag (of_int \<bar>a\<bar> / of_int \<bar>b\<bar>)
      in if overflows r then Inl OverflowError else Inr (Finite s r))"

fun fval :: "bool \<Rightarrow> rat \<Rightarrow> rat" where
  "fval s m = (if s then - m else m)"

text \<open>Float division by a divisor that is not a zero.\<close>

fun float_div :: "pyfloat \<Rightarrow> pyfloat \<Rightarrow> pyfloat" where
  "float_div NaN _ = NaN"
| "float_div _ NaN = NaN"
| "float_div (Infinity s) (Infinity t) = NaN"
| "float_div (Infinity s) (Finite t m) = Infinity (s \<noteq> t)"
| "float_div (Finite s m) (Infinity t) = Finite (s \<noteq> t) 0"
| "float_div (Finite s m) (Finite t n) = float_round (s \<noteq> t) (m / n)"

fun float_add :: "pyfloat \<Rightarrow> pyfloat \<Rightarrow> pyfloat" where
  "float_add NaN _ = NaN"
| "float_add _ NaN = NaN"
| "float_add (Infinity s) (Infinity t) = (if s = t then Infinity s else NaN)"
| "float_add (Infinity s) (Finite t m) = Infinity s"
| "float_add (Finite s m) (Infinity t) = Infinity t"
| "float_add (Finite s m) (Finite t n) =
     (let v = fval s m + fval t n
      in if v = 0 then Finite (s \<and> t) 0 else float_round (v < 0) \<bar>v\<bar>)"

fun float_mul :: "pyfloat \<Rightarrow> pyfloat \<Rightarrow> pyfloat" where
  "float_mul NaN _ = NaN"
| "float_mul _ NaN = NaN"
| "float_mul (Infinity s) (Infinity t) = Infinity (s \<noteq> t)"
| "float_mul (Infinity s) (Finite t m) = (if m = 0 then NaN else Infinity (s \<noteq> t))"
| "float_mul (Finite s m) (Infinity t) = (if m = 0 then NaN else Infinity (s \<noteq> t))"
| "float_mul (Finite s m) (Finite t n) = float_round (s \<noteq> t) (m * n)"

fun float_is_zero :: "pyfloat \<Rightarrow> bool" where
  "float_is_zero (Finite s m) = (m = 0)"
| "float_is_zero _ = False"

text \<open>A float literal of the source denotes the float nearest to its decimal value.\<close>

definition float_lit :: "rat \<Rightarrow> pyfloat" where
  "float_lit x = float_round (x < 0) \<bar>x\<bar>"

section \<open>Numbers: comparison and arithmetic\<close>

text \<open>
  The numbers of Python: \<^verbatim>\<open>bool\<close> is a subclass of \<^verbatim>\<open>int\<close> and computes as 0 or 1.
  Comparison between an integer and a float is exact, on the mathematical values.
\<close>

datatype pynum = NInt int | NFloat pyfloat

fun as_num :: "json \<Rightarrow> pynum option" where
  "as_num (JInt i) = Some (NInt i)"
| "as_num (JBool b) = Some (NInt (if b then 1 else 0))"
| "as_num (JFloat f) = Some (NFloat f)"
| "as_num _ = None"

datatype xval = XNaN | XNegInf | XFin rat | XPosInf

fun num_val :: "pynum \<Rightarrow> xval" where
  "num_val (NInt i) = XFin (of_int i)"
| "num_val (NFloat (Finite s m)) = XFin (fval s m)"
| "num_val (NFloat (Infinity s)) = (if s then XNegInf else XPosInf)"
| "num_val (NFloat NaN) = XNaN"

fun xlt :: "xval \<Rightarrow> xval \<Rightarrow> bool" where
  "xlt XNaN _ = False"
| "xlt _ XNaN = False"
| "xlt XNegInf y = (y \<noteq> XNegInf)"
| "xlt (XFin a) (XFin b) = (a < b)"
| "xlt (XFin a) y = (y = XPosInf)"
| "xlt XPosInf _ = False"

definition num_lt :: "pynum \<Rightarrow> pynum \<Rightarrow> bool" where
  "num_lt a b = xlt (num_val a) (num_val b)"

definition num_gt :: "pynum \<Rightarrow> pynum \<Rightarrow> bool" where
  "num_gt a b = xlt (num_val b) (num_val a)"

definition num_eq :: "pynum \<Rightarrow> pynum \<Rightarrow> bool" where
  "num_eq a b = (num_val a \<noteq> XNaN \<and> num_val a = num_val b)"

definition num_le :: "pynum \<Rightarrow> pynum \<Rightarrow> bool" where
  "num_le a b = (num_lt a b \<or> num_eq a b)"

fun to_float :: "pynum \<Rightarrow> exc + pyfloat" where
  "to_float (NInt i) = float_of_int i"
| "to_float (NFloat f) = Inr f"

text \<open>
  \<^verbatim>\<open>a / b\<close>: two integers divide exactly and round once; otherwise both operands
  become floats first (which may overflow), then a zero divisor raises.
\<close>

fun num_truediv :: "pynum \<Rightarrow> pynum \<Rightarrow> exc + pynum" where
  "num_truediv (NInt a) (NInt b) =
     (if b = 0 then Inl ZeroDivisionError else map_sum id NFloat (int_truediv a b))"
| "num_truediv x y =
     bindE (to_float x) (\<lambda>a. bindE (to_float y) (\<lambda>b.
       if float_is_zero b then Inl ZeroDivisionError else Inr (NFloat (float_div a b))))"

text \<open>Negation, subtraction and the comparison \<^verbatim>\<open>fabs(a) >= fabs(b)\<close> of C doubles.\<close>

fun float_neg :: "pyfloat \<Rightarrow> pyfloat" where
  "float_neg (Finite s m) = Finite (\<not> s) m"
| "float_neg (Infinity s) = Infinity (\<not> s)"
| "float_neg NaN = NaN"

definition float_sub :: "pyfloat \<Rightarrow> pyfloat \<Rightarrow> pyfloat" where
  "float_sub a b = float_add a (float_neg b)"

fun float_abs :: "pyfloat \<Rightarrow> pyfloat" where
  "float_abs (Finite s m) = Finite False m"
| "float_abs (Infinity s) = Infinity False"
| "float_abs NaN = NaN"

definition float_abs_ge :: "pyfloat \<Rightarrow> pyfloat \<Rightarrow> bool" where
  "float_abs_ge a b = num_le (NFloat (float_abs b)) (NFloat (float_abs a))"

section \<open>Rendering numbers as text\<close>

definition digit_char :: "int \<Rightarrow> char" where
  "digit_char d = char_of (48 + d)"

function digits10 :: "int \<Rightarrow> string" where
  "digits10 n = (if n < 10 then [digit_char n] else digits10 (n div 10) @ [digit_char (n mod 10)])"
  by pat_completeness auto
termination
  by (relation "measure nat") auto

declare digits10.simps [simp del]

text \<open>\<^verbatim>\<open>str(i)\<close> for an integer.\<close>

definition str_int :: "int \<Rightarrow> string" where
  "str_int i = (if i < 0 then ''-'' @ digits10 (- i) else digits10 i)"

function dec_length :: "int \<Rightarrow> int" where
  "dec_length n = (if n \<le> 0 then 0 else 1 + dec_length (n div 10))"
  by pat_completeness auto
termination
  by (relation "measure nat") auto

declare dec_length.simps [simp del]

definition pow10 :: "int \<Rightarrow> rat" where
  "pow10 k = (if 0 \<le> k then 10 ^ nat k else 1 / 10 ^ nat (- k))"

text \<open>For \<open>0 < x\<close>, \<open>dec_point x\<close> is the \<open>k\<close> with \<open>10\<^sup>k\<^sup>-\<^sup>1 \<le> x < 10\<^sup>k\<close>.\<close>

definition dec_point :: "rat \<Rightarrow> int" where
  "dec_point x =
     (let (a, b) = quotient_of x;
          k = dec_length a - dec_length b
      in if pow10 k \<le> x then k + 1 else k)"

definition zero_pad :: "nat \<Rightarrow> string \<Rightarrow> string" where
  "zero_pad n s = replicate (n - length s) (CHR ''0'') @ s"

text \<open>
  The format specification \<^verbatim>\<open>.pf\<close> on a float: the exact binary value rounded to \<open>p\<close>
  decimals, ties to even; the sign is kept when the digits round to zero.
\<close>

fun fmt_fixed :: "nat \<Rightarrow> pyfloat \<Rightarrow> string" where
  "fmt_fixed p NaN = ''nan''"
| "fmt_fixed p (Infinity s) = (if s then ''-inf'' else ''inf'')"
| "fmt_fixed p (Finite s m) =
     (let n = round_half_even (m * 10 ^ p);
          ip = n div 10 ^ p;
          fp = n mod 10 ^ p
      in (if s then ''-'' else []) @ digits10 ip @
         (if p = 0 then [] else ''.'' @ zero_pad p (digits10 fp)))"

text \<open>
  The format specification \<^verbatim>\<open>.p%\<close>: the float times 100 (one float multiplication),
  then \<^verbatim>\<open>.pf\<close> and a percent sign.
\<close>

definition fmt_percent :: "nat \<Rightarrow> pyfloat \<Rightarrow> string" where
  "fmt_percent p x = fmt_fixed p (float_mul x (Finite False 100)) @ ''%''"

text \<open>
  \<^verbatim>\<open>repr\<close> of a float: the shortest digit string that rounds back to the float, in
  positional notation when the decimal point falls within \<open>-3 .. 16\<close>, in exponent
  notation otherwise.
\<close>

definition shortest_digits :: "rat \<Rightarrow> int \<times> int" where
  "shortest_digits m =
     (let k = dec_point m;
          cand = (\<lambda>nd. (round_half_even (m / pow10 (k - nd)), k - nd));
          ok = (\<lambda>(d, e). round_mag (of_int d * pow10 e) = m)
      in case find ok (map cand [1 .. 17]) of Some c \<Rightarrow> c | None \<Rightarrow> cand 17)"

definition strip_zeros :: "string \<Rightarrow> string" where
  "strip_zeros s = rev (dropWhile (\<lambda>c. c = CHR ''0'') (rev s))"

definition repr_mag :: "rat \<Rightarrow> string" where
  "repr_mag m =
     (if m = 0 then ''0.0''
      else let (d, e) = shortest_digits m;
               ds0 = digits10 d;
               pt = e + int (length ds0);
               ds = strip_zeros ds0;
               n = int (length ds)
           in if 16 < pt \<or> pt \<le> - 4 then
                [hd ds] @ (if tl ds = [] then [] else ''.'' @ tl ds) @ ''e'' @
                (if pt - 1 < 0 then ''-'' else ''+'') @ zero_pad 2 (digits10 \<bar>pt - 1\<bar>)
              else if pt \<le> 0 then ''0.'' @ replicate (nat (- pt)) (CHR ''0'') @ ds
              else if n \<le> pt then ds @ replicate (nat (pt - n)) (CHR ''0'') @ ''.0''
              else take (nat pt) ds @ ''.'' @ drop (nat pt) ds)"

fun float_repr :: "pyfloat \<Rightarrow> string" where
  "float_repr NaN = ''nan''"
| "float_repr (Infinity s) = (if s then ''-inf'' else ''inf'')"
| "float_repr (Finite s m) = (if s then ''-'' else []) @ repr_mag m"

text \<open>
  \<^verbatim>\<open>repr\<close> of a string, for characters in the ASCII range: single quotes unless the
  string holds a single quote and no double quote; quote, backslash and control
  characters escaped.
\<close>

definition hex_digit :: "int \<Rightarrow> char" where
  "hex_digit d = (if d < 10 then char_of (48 + d) else char_of (87 + d))"

definition repr_char :: "char \<Rightarrow> char \<Rightarrow> string" where
  "repr_char quote c =
     (if c = quote \<or> c = CHR 0x5C then [CHR 0x5C, c]
      else if c = CHR 0x09 then [CHR 0x5C, CHR ''t'']
      else if c = CHR 0x0A then [CHR 0x5C, CHR ''n'']
      else if c = CHR 0x0D then [CHR 0x5C, CHR ''r'']
      else if of_char c < (32 :: int) \<or> c = CHR 0x7F
        then [CHR 0x5C, CHR ''x'', hex_digit (of_char c div 16), hex_digit (of_char c mod 16)]
      else [c])"

definition repr_str :: "string \<Rightarrow> string" where
  "repr_str s =
     (let quote = (if CHR 0x27 \<in> set s \<and> CHR 0x22 \<notin> set s then CHR 0x22 else CHR 0x27)
      in [quote] @ concat (map (repr_char quote) s) @ [quote])"

fun join :: "string \<Rightarrow> string list \<Rightarrow> string" where
  "join sep [] = []"
| "join sep [x] = x"
| "join sep (x # y # ys) = x @ sep @ join sep (y # ys)"

fun py_repr :: "json \<Rightarrow> string" where
  "py_repr JNull = ''None''"
| "py_repr (JBool b) = (if b then ''True'' else ''False'')"
| "py_repr (JInt i) = str_int i"
| "py_repr (JFloat f) = float_repr f"
| "py_repr (JStr s) = repr_str s"
| "py_repr (JList xs) = ''['' @ join '', '' (map py_repr xs) @ '']''"
| "py_repr (JDict kvs) =
     ''{'' @ join '', '' (map (\<lambda>(k, v). repr_str k @ '': '' @ py_repr v) kvs) @ ''}''"

text \<open>\<^verbatim>\<open>str(x)\<close>, which an f-string applies to \<^verbatim>\<open>{x}\<close>: as \<^verbatim>\<open>repr\<close>, but a string is itself.\<close>

fun py_str :: "json \<Rightarrow> string" where
  "py_str (JStr s) = s"
| "py_str x = py_repr x"

text \<open>
  The format specifications on a number; an integer (or boolean) is converted to a
  float first, which raises OverflowError when it is too large.
\<close>

definition format_percent :: "nat \<Rightarrow> pynum \<Rightarrow> exc + string" where
  "format_percent p x = bindE (to_float x) (\<lambda>f. Inr (fmt_percent p f))"

definition format_fixed :: "nat \<Rightarrow> pynum \<Rightarrow> exc + string" where
  "format_fixed p x = bindE (to_float x) (\<lambda>f. Inr (fmt_fixed p f))"

section \<open>Operations on loaded values\<close>

text \<open>\<^verbatim>\<open>x.get(key, default)\<close>: only a dictionary has the method.\<close>

fun py_get :: "json \<Rightarrow> string \<Rightarrow> json \<Rightarrow> exc + json" where
  "py_get (JDict kvs) key dflt = Inr (case map_of kvs key of Some v \<Rightarrow> v | None \<Rightarrow> dflt)"
| "py_get _ key dflt = Inl AttributeError"

text \<open>\<^verbatim>\<open>x == c\<close> for a number \<open>c\<close>: never raises; a value that is not a number is unequal.\<close>

definition py_eq :: "json \<Rightarrow> pynum \<Rightarrow> bool" where
  "py_eq x c = (case as_num x of Some n \<Rightarrow> num_eq n c | None \<Rightarrow> False)"

text \<open>\<^verbatim>\<open>x > c\<close> and \<^verbatim>\<open>x < c\<close> for a number \<open>c\<close>: TypeError unless \<open>x\<close> is a number.\<close>

definition py_gt :: "json \<Rightarrow> pynum \<Rightarrow> exc + bool" where
  "py_gt x c = (case as_num x of Some n \<Rightarrow> Inr (num_gt n c) | None \<Rightarrow> Inl TypeError)"

definition py_lt :: "json \<Rightarrow> pynum \<Rightarrow> exc + bool" where
  "py_lt x c = (case as_num x of Some n \<Rightarrow> Inr (num_lt n c) | None \<Rightarrow> Inl TypeError)"

definition py_truediv :: "json \<Rightarrow> json \<Rightarrow> exc + pynum" where
  "py_truediv x y =
     (case (as_num x, as_num y) of
        (Some a, Some b) \<Rightarrow> num_truediv a b
      | _ \<Rightarrow> Inl TypeError)"

text \<open>\<^verbatim>\<open>len(x)\<close>: lists, strings and dictionaries have a length.\<close>

fun py_len :: "json \<Rightarrow> exc + int" where
  "py_len (JList xs) = Inr (int (length xs))"
| "py_len (JStr s) = Inr (int (length s))"
| "py_len (JDict kvs) = Inr (int (length (remdups (map fst kvs))))"
| "py_len _ = Inl TypeError"

text \<open>
  Iteration: the elements of a list, the characters of a string (each a string), the
  keys of a dictionary.
\<close>

fun py_iter :: "json \<Rightarrow> exc + json list" where
  "py_iter (JList xs) = Inr xs"
| "py_iter (JStr s) = Inr (map (\<lambda>c. JStr [c]) s)"
| "py_iter (JDict kvs) = Inr (map JStr (remdups (map fst kvs)))"
| "py_iter _ = Inl TypeError"

text \<open>
  The builtin \<^verbatim>\<open>sum\<close> belongs to the interpreter, and how it accumulates floats differs
  between versions of CPython: up to 3.11 every float is added to the running sum and
  the sum rounded; from 3.12 on a compensation term is carried along and added at the
  end. What all versions share is written out below; the accumulation of floats is a
  parameter, with a state of its own:
  \<^item> \<open>sum_start a x\<close>: the state after the integers so far, of exact sum \<open>a\<close>, meet the
    first float \<open>x\<close>;
  \<^item> \<open>sum_step s n\<close>: the state after one more number;
  \<^item> \<open>sum_final s\<close>: the float that \<^verbatim>\<open>sum\<close> returns.
\<close>

record 's interp =
  sum_start :: "int \<Rightarrow> pyfloat \<Rightarrow> exc + 's"
  sum_step :: "'s \<Rightarrow> pynum \<Rightarrow> exc + 's"
  sum_final :: "'s \<Rightarrow> pyfloat"

text \<open>CPython up to 3.11: the state is the running sum.\<close>

definition plain_sum :: "pyfloat interp" where
  "plain_sum =
     \<lparr>sum_start = (\<lambda>a x. bindE (float_of_int a) (\<lambda>fa. Inr (float_add fa x))),
      sum_step = (\<lambda>s n. bindE (to_float n) (\<lambda>x. Inr (float_add s x))),
      sum_final = (\<lambda>s. s)\<rparr>"

text \<open>
  The compensated summation of Neumaier, as in the float loop of CPython 3.12: the state
  is the running sum and the compensation, the rounding error lost so far. A float is
  added with its rounding error kept, an integer is converted and added to the running
  sum, and a compensation that is finite and not zero is added at the end.
\<close>

definition compensated_sum :: "(pyfloat \<times> pyfloat) interp" where
  "compensated_sum =
     \<lparr>sum_start = (\<lambda>a x. bindE (float_of_int a) (\<lambda>fa. Inr (float_add fa x, Finite False 0))),
      sum_step = (\<lambda>(f, c) n. case n of
           NInt i \<Rightarrow> bindE (float_of_int i) (\<lambda>x. Inr (float_add f x, c))
         | NFloat x \<Rightarrow>
             (let t = float_add f x;
                  lost = (if float_abs_ge f x then float_add (float_sub f t) x
                          else float_add (float_sub x t) f)
              in Inr (t, float_add c lost))),
      sum_final = (\<lambda>(f, c). case c of
                      Finite s m \<Rightarrow> if m = 0 then f else float_add f c
                    | _ \<Rightarrow> f)\<rparr>"

text \<open>
  \<^verbatim>\<open>sum(f(e) for e in xs)\<close>: from the integer 0, left to right; each element is
  computed, then added, and the first exception ends the sum. Integers (and booleans)
  add exactly, in every version; a value that is not a number raises TypeError.
\<close>

datatype 's sum_acc = IntSum int | FloatSum 's

definition sum_add :: "'s interp \<Rightarrow> 's sum_acc \<Rightarrow> json \<Rightarrow> exc + 's sum_acc" where
  "sum_add py acc x =
     (case as_num x of
        None \<Rightarrow> Inl TypeError
      | Some n \<Rightarrow>
          (case acc of
             IntSum a \<Rightarrow>
               (case n of
                  NInt b \<Rightarrow> Inr (IntSum (a + b))
                | NFloat v \<Rightarrow> map_sum id FloatSum (sum_start py a v))
           | FloatSum s \<Rightarrow> map_sum id FloatSum (sum_step py s n)))"

fun py_sum_from ::
  "'s interp \<Rightarrow> 's sum_acc \<Rightarrow> (json \<Rightarrow> exc + json) \<Rightarrow> json list \<Rightarrow> exc + pynum" where
  "py_sum_from py acc f [] =
     Inr (case acc of IntSum a \<Rightarrow> NInt a | FloatSum s \<Rightarrow> NFloat (sum_final py s))"
| "py_sum_from py acc f (e # es) =
     bindE (f e) (\<lambda>v. bindE (sum_add py acc v) (\<lambda>acc'. py_sum_from py acc' f es))"

definition py_sum :: "'s interp \<Rightarrow> (json \<Rightarrow> exc + json) \<Rightarrow> json list \<Rightarrow> exc + pynum" where
  "py_sum py f xs = py_sum_from py (IntSum 0) f xs"

text \<open>
  \<^verbatim>\<open>f"{x:.1%}"\<close> on a loaded value: a number is formatted; a string does not know the
  format code, the other values take no format specification.
\<close>

definition py_format_percent :: "nat \<Rightarrow> json \<Rightarrow> exc + string" where
  "py_format_percent p x =
     (case as_num x of
        Some n \<Rightarrow> format_percent p n
      | None \<Rightarrow> (case x of JStr s \<Rightarrow> Inl ValueError | _ \<Rightarrow> Inl TypeError))"

section \<open>The gate evaluators\<close>

text \<open>
  Each evaluator takes the loaded artifact, \<open>JNull\<close> being Python's \<^verbatim>\<open>None\<close>, and
  returns the pair \<^verbatim>\<open>(passed, message)\<close>, or raises. The chaos evaluator calls \<^verbatim>\<open>sum\<close>
  and so takes the interpreter as well.
\<close>

type_synonym verdict = "bool \<times> string"

definition check_integration_gate :: "json \<Rightarrow> exc + verdict" where
  "check_integration_gate integration_data =
     (if integration_data = JNull then Inr (False, ''Integration test results not found'')
      else
        bindE (py_get integration_data ''summary'' (JDict [])) (\<lambda>summary.
        bindE (py_get summary ''total'' (JInt 0)) (\<lambda>total.
        bindE (py_get summary ''passed'' (JInt 0)) (\<lambda>passed.
        bindE (py_get summary ''failed'' (JInt 0)) (\<lambda>failed.
          if py_eq total (NInt 0) then Inr (False, ''No integration tests run'')
          else
            bindE (py_gt total (NInt 0)) (\<lambda>positive.
            bindE (if positive then py_truediv passed total else Inr (NInt 0)) (\<lambda>pass_rate.
              if num_lt pass_rate (NFloat (float_lit (8 / 10))) then
                bindE (format_percent 1 pass_rate) (\<lambda>rate.
                  Inr (False, ''Integration pass rate too low: '' @ rate @ '' (required: 80%)''))
              else
                bindE (format_percent 1 pass_rate) (\<lambda>rate.
                  Inr (True, ''Integration tests passed: '' @ py_str passed @ ''/'' @
                             py_str total @ '' ('' @ rate @ '')'')))))))))"

definition check_performance_gate :: "json \<Rightarrow> exc + verdict" where
  "check_performance_gate perf_data =
     (if perf_data = JNull then Inr (True, ''Performance data not available (optional)'')
      else
        bindE (py_get perf_data ''latency'' (JDict [])) (\<lambda>latency50.
        bindE (py_get latency50 ''p50'' (JInt 0)) (\<lambda>latency_p50.
        bindE (py_get perf_data ''latency'' (JDict [])) (\<lambda>latency95.
        bindE (py_get latency95 ''p95'' (JInt 0)) (\<lambda>latency_p95.
        bindE (py_gt latency_p95 (NInt 1000)) (\<lambda>too_high.
          if too_high then
            Inr (False, ''P95 latency too high: '' @ py_str latency_p95 @
                        ''ms (threshold: 1000ms)'')
          else
            Inr (True, ''Performance metrics acceptable (P95: '' @ py_str latency_p95 @
                       ''ms)'')))))))"

definition check_chaos_gate :: "'s interp \<Rightarrow> json \<Rightarrow> exc + verdict" where
  "check_chaos_gate py chaos_data =
     (if chaos_data = JNull then Inr (True, ''Chaos test data not available (optional)'')
      else
        bindE (py_get chaos_data ''healing_events'' (JList [])) (\<lambda>healing_events.
        bindE (py_len healing_events) (\<lambda>n0.
          if n0 = 0 then Inr (True, ''No healing events (system stable)'')
          else
            bindE (py_iter healing_events) (\<lambda>events.
            bindE (py_sum py (\<lambda>e. py_get e ''recovery_time_ms'' (JInt 0)) events) (\<lambda>total.
            bindE (py_len healing_events) (\<lambda>n.
            bindE (num_truediv total (NInt n)) (\<lambda>avg_recovery.
              if num_gt avg_recovery (NInt 5000) then
                bindE (format_fixed 0 avg_recovery) (\<lambda>avg.
                  Inr (False, ''Average recovery time too high: '' @ avg @
                              ''ms (threshold: 5000ms)''))
              else
                bindE (py_len healing_events) (\<lambda>n1.
                bindE (format_fixed 0 avg_recovery) (\<lambda>avg.
                  Inr (True, ''Chaos tests passed: '' @ str_int n1 @
                             '' healing events, avg recovery: '' @ avg @ ''ms''))))))))))"

definition check_model_gate :: "json \<Rightarrow> exc + verdict" where
  "check_model_gate model_data =
     (if model_data = JNull then Inr (True, ''Model validation data not available (optional)'')
      else
        bindE (py_get model_data ''accuracy'' (JInt 0)) (\<lambda>accuracy.
        bindE (py_lt accuracy (NFloat (float_lit (9 / 10)))) (\<lambda>too_low.
          if too_low then
            bindE (py_format_percent 1 accuracy) (\<lambda>acc.
              Inr (False, ''Model accuracy too low: '' @ acc @ '' (required: 90%)''))
          else
            bindE (py_format_percent 1 accuracy) (\<lambda>acc.
              Inr (True, ''Model validation passed: accuracy '' @ acc)))))"

section \<open>The artifact loader and the aggregator\<close>

text \<open>
  What the script sees of its surroundings: whether a path exists, what opening it and
  \<^verbatim>\<open>json.load\<close> give (the parsed value, or the exception raised with its text),
  whether the report can be written (creating the parent directories, opening the file
  and dumping the report; \<open>None\<close> when nothing is raised), whether a line can be printed
  on stdout (\<^verbatim>\<open>print\<close> raises UnicodeEncodeError for a character that the encoding of
  stdout lacks, and OSError when the write fails) or on stderr (which escapes what it
  cannot encode, so that only the write can fail), and whether flushing stdout fails
  when the interpreter exits.
\<close>

record world =
  path_exists :: "string \<Rightarrow> bool"
  read_json :: "string \<Rightarrow> (exc \<times> string) + json"
  write_report :: "string \<Rightarrow> exc option"
  print_line :: "string \<Rightarrow> exc option"
  print_err_line :: "string \<Rightarrow> exc option"
  flush_fails :: bool

text \<open>The report \<^verbatim>\<open>result\<close>; each gate entry is its \<^verbatim>\<open>passed\<close> and its \<^verbatim>\<open>message\<close>.\<close>

record report =
  passed :: bool
  gates :: "(string \<times> verdict) list"
  timestamp :: string

text \<open>What a run leaves behind: the lines on stderr and stdout and the files written.\<close>

record effects =
  stderr :: "string list"
  files :: "(string \<times> report) list"
  stdout :: "string list"

type_synonym 'a prog = "effects \<Rightarrow> (exc + 'a) \<times> effects"

definition bindP :: "'a prog \<Rightarrow> ('a \<Rightarrow> 'b prog) \<Rightarrow> 'b prog" where
  "bindP m f fx = (case m fx of (Inl e, fx') \<Rightarrow> (Inl e, fx') | (Inr x, fx') \<Rightarrow> f x fx')"

definition liftE :: "exc + 'a \<Rightarrow> 'a prog" where
  "liftE r fx = (r, fx)"

definition print_err :: "world \<Rightarrow> string \<Rightarrow> unit prog" where
  "print_err w line fx =
     (case print_err_line w line of
        Some e \<Rightarrow> (Inl e, fx)
      | None \<Rightarrow> (Inr (), fx\<lparr>stderr := stderr fx @ [line]\<rparr>))"

text \<open>
  One \<^verbatim>\<open>print\<close> call per line, in order; the first one that raises ends the printing,
  with the lines before it printed.
\<close>

fun print_out :: "world \<Rightarrow> string list \<Rightarrow> unit prog" where
  "print_out w [] fx = (Inr (), fx)"
| "print_out w (l # ls) fx =
     (case print_line w l of
        Some e \<Rightarrow> (Inl e, fx)
      | None \<Rightarrow> print_out w ls (fx\<lparr>stdout := stdout fx @ [l]\<rparr>))"

text \<open>
  \<^verbatim>\<open>load_json_file\<close>: \<^verbatim>\<open>None\<close> for a path that does not exist; the parsed value; a
  warning and \<^verbatim>\<open>None\<close> for the two exception classes of the \<^verbatim>\<open>except\<close> clause
  (\<^verbatim>\<open>IOError\<close> is \<^verbatim>\<open>OSError\<close>); any other exception goes on.
\<close>

definition load_json_file :: "world \<Rightarrow> string \<Rightarrow> json prog" where
  "load_json_file w filepath =
     (if \<not> path_exists w filepath then liftE (Inr JNull)
      else case read_json w filepath of
             Inr v \<Rightarrow> liftE (Inr v)
           | Inl (e, text) \<Rightarrow>
               if e = JSONDecodeError \<or> e = OSError then
                 bindP (print_err w (''Warning: Failed to load '' @ filepath @ '': '' @ text))
                   (\<lambda>_. liftE (Inr JNull))
               else liftE (Inl e))"

text \<open>The parsed command line; an option that was not given is \<open>None\<close>.\<close>

record args =
  integration :: "string option"
  perf :: "string option"
  chaos :: "string option"
  models :: "string option"
  output_path :: string

text \<open>\<^verbatim>\<open>load_json_file(a) if a else None\<close>: an empty string is false as well.\<close>

definition load_if_given :: "world \<Rightarrow> string option \<Rightarrow> json prog" where
  "load_if_given w a =
     (case a of
        Some p \<Rightarrow> if p \<noteq> [] then load_json_file w p else liftE (Inr JNull)
      | None \<Rightarrow> liftE (Inr JNull))"

text \<open>\<^verbatim>\<open>json.dumps\<close> with its defaults, for ASCII strings.\<close>

definition dumps_char :: "char \<Rightarrow> string" where
  "dumps_char c =
     (if c = CHR 0x22 \<or> c = CHR 0x5C then [CHR 0x5C, c]
      else if c = CHR 0x0A then [CHR 0x5C, CHR ''n'']
      else if c = CHR 0x0D then [CHR 0x5C, CHR ''r'']
      else if c = CHR 0x09 then [CHR 0x5C, CHR ''t'']
      else if c = CHR 0x08 then [CHR 0x5C, CHR ''b'']
      else if c = CHR 0x0C then [CHR 0x5C, CHR ''f'']
      else if of_char c < (32 :: int)
        then [CHR 0x5C, CHR ''u'', CHR ''0'', CHR ''0'',
              hex_digit (of_char c div 16), hex_digit (of_char c mod 16)]
      else [c])"

definition dumps_str :: "string \<Rightarrow> string" where
  "dumps_str s = [CHR 0x22] @ concat (map dumps_char s) @ [CHR 0x22]"

fun json_dumps :: "json \<Rightarrow> string" where
  "json_dumps JNull = ''null''"
| "json_dumps (JBool b) = (if b then ''true'' else ''false'')"
| "json_dumps (JInt i) = str_int i"
| "json_dumps (JFloat NaN) = ''NaN''"
| "json_dumps (JFloat (Infinity s)) = (if s then ''-Infinity'' else ''Infinity'')"
| "json_dumps (JFloat (Finite s m)) = float_repr (Finite s m)"
| "json_dumps (JStr s) = dumps_str s"
| "json_dumps (JList xs) = ''['' @ join '', '' (map json_dumps xs) @ '']''"
| "json_dumps (JDict kvs) =
     ''{'' @ join '', '' (map (\<lambda>(k, v). dumps_str k @ '': '' @ json_dumps v) kvs) @ ''}''"

definition check_mark :: string where
  "check_mark = [CHR 0xE2, CHR 0x9C, CHR 0x85]"

definition cross_mark :: string where
  "cross_mark = [CHR 0xE2, CHR 0x9D, CHR 0x8C]"

definition summary_lines :: "(string \<times> verdict) list \<Rightarrow> bool \<Rightarrow> string list" where
  "summary_lines gs all_passed =
     [''Release Gate Check Results:'', replicate 50 (CHR ''='')] @
     map (\<lambda>(name, (passed, message)).
            (if passed then check_mark @ '' PASS'' else cross_mark @ '' FAIL'') @
            '' '' @ name @ '': '' @ message) gs @
     [replicate 50 (CHR ''=''),
      ''Overall: '' @ (if all_passed then check_mark @ '' PASSED'' else cross_mark @ '' FAILED'')]"

definition write_result :: "world \<Rightarrow> string \<Rightarrow> report \<Rightarrow> unit prog" where
  "write_result w path result fx =
     (case write_report w path of
        Some e \<Rightarrow> (Inl e, fx)
      | None \<Rightarrow> (Inr (), fx\<lparr>files := files fx @ [(path, result)]\<rparr>))"

text \<open>\<^verbatim>\<open>main\<close>, from the parsed arguments on; it returns the exit code.\<close>

definition main :: "'s interp \<Rightarrow> world \<Rightarrow> args \<Rightarrow> int prog" where
  "main py w a =
     bindP (load_if_given w (integration a)) (\<lambda>integration_data.
     bindP (load_if_given w (perf a)) (\<lambda>perf_data.
     bindP (load_if_given w (chaos a)) (\<lambda>chaos_data.
     bindP (load_if_given w (models a)) (\<lambda>model_data.
     bindP (liftE (check_integration_gate integration_data)) (\<lambda>g_integration.
     bindP (liftE (check_performance_gate perf_data)) (\<lambda>g_performance.
     bindP (liftE (check_chaos_gate py chaos_data)) (\<lambda>g_chaos.
     bindP (liftE (check_model_gate model_data)) (\<lambda>g_models.
       let gs = [(''integration'', g_integration), (''performance'', g_performance),
                 (''chaos'', g_chaos), (''models'', g_models)];
           all_passed = list_all (\<lambda>(name, (passed, message)). passed) gs;
           result = \<lparr>passed = all_passed,
                     gates = map (\<lambda>(name, (passed, message)). (name, (passed, message))) gs,
                     timestamp = json_dumps (JDict [])\<rparr>
       in bindP (write_result w (output_path a) result) (\<lambda>_.
          bindP (print_out w (summary_lines gs all_passed)) (\<lambda>_.
            liftE (Inr (if all_passed then 0 else 1))))))))))))"

definition no_effects :: effects where
  "no_effects = \<lparr>stderr = [], files = [], stdout = []\<rparr>"

text \<open>
  \<^verbatim>\<open>sys.exit(main())\<close>: the exit status of the process is the returned code; an
  exception that leaves \<^verbatim>\<open>main\<close> ends the process with status 1; and when flushing
  stdout fails as the interpreter exits, the status is 120 whatever came before.
\<close>

definition exit_status :: "world \<Rightarrow> exc + int \<Rightarrow> int" where
  "exit_status w r =
     (if flush_fails w then 120 else case r of Inr code \<Rightarrow> code | Inl e \<Rightarrow> 1)"

definition run :: "'s interp \<Rightarrow> world \<Rightarrow> args \<Rightarrow> int \<times> effects" where
  "run py w a = (case main py w a no_effects of (r, fx) \<Rightarrow> (exit_status w r, fx))"

section \<open>The stages of a run\<close>

text \<open>
  \<^verbatim>\<open>main\<close> is three stages in sequence: the four loads, the four evaluators, and the
  sink (write the report, print the summary, return the code). They are named here so
  that properties of a run can speak about them; \<open>main_stages\<close> below shows that
  \<^verbatim>\<open>main\<close> is their composition.
\<close>

definition load_all :: "world \<Rightarrow> args \<Rightarrow> (json \<times> json \<times> json \<times> json) prog" where
  "load_all w a =
     bindP (load_if_given w (integration a)) (\<lambda>integration_data.
     bindP (load_if_given w (perf a)) (\<lambda>perf_data.
     bindP (load_if_given w (chaos a)) (\<lambda>chaos_data.
     bindP (load_if_given w (models a)) (\<lambda>model_data.
       liftE (Inr (integration_data, perf_data, chaos_data, model_data))))))"

definition evaluate_all ::
  "'s interp \<Rightarrow> json \<times> json \<times> json \<times> json \<Rightarrow> exc + (string \<times> verdict) list" where
  "evaluate_all py d =
     (case d of (integration_data, perf_data, chaos_data, model_data) \<Rightarrow>
        bindE (check_integration_gate integration_data) (\<lambda>g_integration.
        bindE (check_performance_gate perf_data) (\<lambda>g_performance.
        bindE (check_chaos_gate py chaos_data) (\<lambda>g_chaos.
        bindE (check_model_gate model_data) (\<lambda>g_models.
          Inr [(''integration'', g_integration), (''performance'', g_performance),
               (''chaos'', g_chaos), (''models'', g_models)])))))"

definition build_result :: "(string \<times> verdict) list \<Rightarrow> report" where
  "build_result gs =
     \<lparr>passed = list_all (\<lambda>(name, (passed, message)). passed) gs,
      gates = gs, timestamp = ''{}''\<rparr>"

definition finish :: "world \<Rightarrow> args \<Rightarrow> (string \<times> verdict) list \<Rightarrow> int prog" where
  "finish w a gs =
     bindP (write_result w (output_path a) (build_result gs)) (\<lambda>_.
     bindP (print_out w (summary_lines gs (passed (build_result gs)))) (\<lambda>_.
       liftE (Inr (if passed (build_result gs) then 0 else 1))))"

text \<open>The first exception among the outcomes of evaluators run in order.\<close>

fun first_raised :: "(exc + 'a) list \<Rightarrow> exc option" where
  "first_raised [] = None"
| "first_raised (Inl e # rs) = Some e"
| "first_raised (Inr x # rs) = first_raised rs"

section \<open>Notions of the specification\<close>

text \<open>A message mentions a word when the word occurs in it.\<close>

fun mentions :: "string \<Rightarrow> string \<Rightarrow> bool" where
  "mentions [] word = (word = [])"
| "mentions (c # cs) word = (take (length word) (c # cs) = word \<or> mentions cs word)"

text \<open>
  Modelled from the spec: the timestamp of a report is, in the words of the
  specification, "UTC, ISO-8601, trailing Z or explicit offset"; the script holds no such
  check. A string has that form when it reads \<^verbatim>\<open>YYYY-MM-DDThh:mm:ss\<close>, an optional
  fraction of a second, then \<^verbatim>\<open>Z\<close> or an offset \<^verbatim>\<open>+hh:mm\<close> or \<^verbatim>\<open>-hh:mm\<close>. In a shape,
  \<^verbatim>\<open>d\<close> stands for a digit and any other character for itself.
\<close>

definition is_digit :: "char \<Rightarrow> bool" where
  "is_digit c = (48 \<le> (of_char c :: int) \<and> (of_char c :: int) \<le> 57)"

fun has_shape :: "string \<Rightarrow> string \<Rightarrow> bool" where
  "has_shape [] [] = True"
| "has_shape (p # ps) (c # cs) =
     ((if p = CHR ''d'' then is_digit c else c = p) \<and> has_shape ps cs)"
| "has_shape _ _ = False"

definition iso8601_utc :: "string \<Rightarrow> bool" where
  "iso8601_utc s =
     (let rest = drop 19 s;
          zone = (case rest of
                    c # r \<Rightarrow> if c = CHR ''.'' then dropWhile is_digit r else rest
                  | [] \<Rightarrow> rest)
      in has_shape ''dddd-dd-ddTdd:dd:dd'' (take 19 s) \<and>
         (zone = ''Z'' \<or> has_shape ''+dd:dd'' zone \<or> has_shape ''-dd:dd'' zone))"

section \<open>Sample runs\<close>

text \<open>
  A run with four artifact paths: the integration results (80 of 100 passed) and the
  performance results (P95 of 1001 ms) parse, the chaos file is not JSON, and there is
  no model file.
\<close>

definition sample_integration :: json where
  "sample_integration =
     JDict [(''summary'', JDict [(''total'', JInt 100), (''passed'', JInt 80),
                                 (''failed'', JInt 20)])]"

definition sample_perf :: json where
  "sample_perf = JDict [(''latency'', JDict [(''p50'', JInt 120), (''p95'', JInt 1001)])]"

definition sample_world :: world where
  "sample_world =
     \<lparr>path_exists = (\<lambda>p. p \<noteq> ''models.json''),
      read_json = (\<lambda>p. if p = ''integration.json'' then Inr sample_integration
                        else if p = ''perf.json'' then Inr sample_perf
                        else Inl (JSONDecodeError, ''Expecting value: line 1 column 1 (char 0)'')),
      write_report = (\<lambda>p. None),
      print_line = (\<lambda>l. None), print_err_line = (\<lambda>l. None), flush_fails = False\<rparr>"

definition sample_args :: args where
  "sample_args =
     \<lparr>integration = Some ''integration.json'', perf = Some ''perf.json'',
      chaos = Some ''chaos.json'', models = Some ''models.json'',
      output_path = ''out/gates.json''\<rparr>"

definition sample_gates :: "(string \<times> verdict) list" where
  "sample_gates =
     [(''integration'', (True, ''Integration tests passed: 80/100 (80.0%)'')),
      (''performance'', (False, ''P95 latency too high: 1001ms (threshold: 1000ms)'')),
      (''chaos'', (True, ''Chaos test data not available (optional)'')),
      (''models'', (True, ''Model validation data not available (optional)''))]"

definition sample_report :: report where
  "sample_report = \<lparr>passed = False, gates = sample_gates, timestamp = ''{}''\<rparr>"

definition sample_effects :: effects where
  "sample_effects =
     \<lparr>stderr = [''Warning: Failed to load chaos.json: Expecting value: line 1 column 1 (char 0)''],
      files = [(''out/gates.json'', sample_report)],
      stdout = summary_lines sample_gates False\<rparr>"

text \<open>
  The same two artifacts under other paths, in another directory layout, with no chaos
  option and an empty models option, and the report written elsewhere.
\<close>

definition other_world :: world where
  "other_world =
     \<lparr>path_exists = (\<lambda>p. True),
      read_json = (\<lambda>p. if p = ''ci/int.json'' then Inr sample_integration else Inr sample_perf),
      write_report = (\<lambda>p. None),
      print_line = (\<lambda>l. None), print_err_line = (\<lambda>l. None), flush_fails = False\<rparr>"

definition other_args :: args where
  "other_args =
     \<lparr>integration = Some ''ci/int.json'', perf = Some ''ci/perf.json'',
      chaos = None, models = Some [], output_path = ''report.json''\<rparr>"

definition other_effects :: effects where
  "other_effects =
     \<lparr>stderr = [],
      files = [(''report.json'', sample_report)],
      stdout = summary_lines sample_gates False\<rparr>"

text \<open>A run whose integration artifact is the JSON text \<^verbatim>\<open>[]\<close>: a list, not an object.\<close>

definition list_world :: world where
  "list_world =
     \<lparr>path_exists = (\<lambda>p. True), read_json = (\<lambda>p. Inr (JList [])),
      write_report = (\<lambda>p. None),
      print_line = (\<lambda>l. None), print_err_line = (\<lambda>l. None), flush_fails = False\<rparr>"

definition list_args :: args where
  "list_args =
     \<lparr>integration = Some ''integration.json'', perf = None, chaos = None, models = None,
      output_path = ''gates.json''\<rparr>"

text \<open>
  A run whose chaos file holds bytes that are not text in the encoding of the platform
  (the byte \<^verbatim>\<open>0xff\<close> under UTF-8): reading it raises UnicodeDecodeError.
\<close>

definition binary_world :: world where
  "binary_world =
     \<lparr>path_exists = (\<lambda>p. True),
      read_json = (\<lambda>p. Inl (UnicodeDecodeError,
        ''utf-8 codec cannot decode byte 0xff in position 0: invalid start byte'')),
      write_report = (\<lambda>p. None),
      print_line = (\<lambda>l. None), print_err_line = (\<lambda>l. None), flush_fails = False\<rparr>"

definition binary_args :: args where
  "binary_args =
     \<lparr>integration = None, perf = None, chaos = Some ''chaos.json'', models = None,
      output_path = ''gates.json''\<rparr>"

text \<open>Artifacts for single gates.\<close>

definition empty_summary :: json where
  "empty_summary =
     JDict [(''total'', JInt 0), (''passed'', JInt 7), (''failed'', JStr ''n/a'')]"






text \<open>
  Four events whose float sum depends on the interpreter: \<open>10\<^sup>1\<^sup>6\<close>, 1, 1 and
  \<open>- (10\<^sup>1\<^sup>6 - 20000)\<close>, all floats, of exact sum 20002.
\<close>

definition cancelling_events :: "json list" where
  "cancelling_events =
     map (\<lambda>x. JDict [(''recovery_time_ms'', JFloat (float_lit x))])
       [10000000000000000, 1, 1, - 9999999999980000]"

definition chaos_cancelling :: json where
  "chaos_cancelling = JDict [(''healing_events'', JList cancelling_events)]"

text \<open>A performance artifact whose P95 latency is \<^verbatim>\<open>NaN\<close>, which \<^verbatim>\<open>json.load\<close> accepts.\<close>

definition perf_nan :: json where
  "perf_nan = JDict [(''latency'', JDict [(''p50'', JInt 120), (''p95'', JFloat NaN)])]"

text \<open>
  A run whose only artifact is the passing integration results, on a stdout whose
  encoding is ASCII: a line with a character outside ASCII cannot be printed.
\<close>

definition is_ascii :: "char \<Rightarrow> bool" where
  "is_ascii c = ((of_char c :: int) < 128)"

definition ascii_world :: world where
  "ascii_world =
     \<lparr>path_exists = (\<lambda>p. True), read_json = (\<lambda>p. Inr sample_integration),
      write_report = (\<lambda>p. None),
      print_line = (\<lambda>l. if list_all is_ascii l then None else Some UnicodeEncodeError),
      print_err_line = (\<lambda>l. None), flush_fails = False\<rparr>"

definition ascii_args :: args where
  "ascii_args =
     \<lparr>integration = Some ''integration.json'', perf = None, chaos = None, models = None,
      output_path = ''gates.json''\<rparr>"

definition passing_gates :: "(string \<times> verdict) list" where
  "passing_gates =
     [(''integration'', (True, ''Integration tests passed: 80/100 (80.0%)'')),
      (''performance'', (True, ''Performance data not available (optional)'')),
      (''chaos'', (True, ''Chaos test data not available (optional)'')),
      (''models'', (True, ''Model validation data not available (optional)''))]"

definition passing_report :: report where
  "passing_report = \<lparr>passed = True, gates = passing_gates, timestamp = ''{}''\<rparr>"

definition ascii_effects :: effects where
  "ascii_effects =
     \<lparr>stderr = [],
      files = [(''gates.json'', passing_report)],
      stdout = [''Release Gate Check Results:'', replicate 50 (CHR ''='')]\<rparr>"

section \<open>Properties of the rounding\<close>

lemma pow2_powi: "pow2 k = 2 powi k"
  by (simp add: pow2_def power_int_def inverse_eq_divide power_one_over)

lemma pow2_pos [simp]: "0 < pow2 k"
  by (simp add: pow2_powi)

lemma pow2_add: "pow2 (j + k) = pow2 j * pow2 k"
  by (simp add: pow2_powi power_int_add)

lemma pow2_strict_mono: "j < k \<Longrightarrow> pow2 j < pow2 k"
  by (simp add: pow2_powi power_int_strict_increasing)

lemma pow2_mono: "j \<le> k \<Longrightarrow> pow2 j \<le> pow2 k"
  by (simp add: pow2_powi power_int_increasing)


lemma pow2_le_iff [simp]: "pow2 j \<le> pow2 k \<longleftrightarrow> j \<le> k"
  using pow2_strict_mono [of k j] pow2_mono [of j k] by (auto simp: not_le [symmetric])

lemma pow2_nonneg_exp: "0 \<le> k \<Longrightarrow> pow2 k = of_int (2 ^ nat k)"
  by (simp add: pow2_def)

lemma pow2_53: "2 ^ 53 * pow2 j = pow2 (j + 53)"
proof -
  have "pow2 53 = 2 ^ 53" by (simp add: pow2_def)
  then have "2 ^ 53 * pow2 j = pow2 53 * pow2 j" by simp
  also have "\<dots> = pow2 (j + 53)" by (simp only: pow2_add [symmetric] add.commute)
  finally show ?thesis .
qed

lemma bit_length_bounds:
  "0 < a \<Longrightarrow> 1 \<le> bit_length a \<and> 2 ^ nat (bit_length a - 1) \<le> a \<and> a < 2 ^ nat (bit_length a)"
proof (induction a rule: bit_length.induct)
  case (1 n)
  show ?case
  proof (cases "n = 1")
    case True
    then show ?thesis by (simp add: bit_length.simps [of 1] bit_length.simps [of 0])
  next
    case False
    with 1(2) have pos: "0 < n div 2" by linarith
    from 1(1) pos 1(2) have ih: "1 \<le> bit_length (n div 2)"
      "2 ^ nat (bit_length (n div 2) - 1) \<le> n div 2" "n div 2 < 2 ^ nat (bit_length (n div 2))"
      by auto
    have bl: "bit_length n = 1 + bit_length (n div 2)"
      using 1(2) by (subst bit_length.simps) simp
    have e: "nat (bit_length (n div 2)) = Suc (nat (bit_length (n div 2) - 1))"
      using ih(1) by linarith
    have lo: "2 ^ nat (bit_length (n div 2)) \<le> n"
    proof -
      have "(2::int) ^ nat (bit_length (n div 2)) = 2 * 2 ^ nat (bit_length (n div 2) - 1)"
        by (simp add: e)
      also have "\<dots> \<le> 2 * (n div 2)" using ih(2) by simp
      also have "\<dots> \<le> n" by linarith
      finally show ?thesis .
    qed
    have hi: "n < 2 * 2 ^ nat (bit_length (n div 2))"
    proof -
      have "n div 2 + 1 \<le> 2 ^ nat (bit_length (n div 2))" using ih(3) by simp
      then have "2 * (n div 2) + 2 \<le> 2 * 2 ^ nat (bit_length (n div 2))" by simp
      moreover have "n \<le> 2 * (n div 2) + 1" by linarith
      ultimately show ?thesis by linarith
    qed
    have n1: "nat (1 + bit_length (n div 2)) = Suc (nat (bit_length (n div 2)))"
      using ih(1) by linarith
    show ?thesis using ih(1) lo hi by (simp add: bl n1)
  qed
qed

lemma bit_length_nonpos: "a \<le> 0 \<Longrightarrow> bit_length a = 0"
  by (subst bit_length.simps) simp

text \<open>
  The overflow test in a form that evaluates fast: \<open>2\<^sup>1\<^sup>0\<^sup>2\<^sup>4 \<le> r\<close> exactly when the
  integer part of \<open>r\<close> has more than 1024 bits.
\<close>

lemma overflows_code [code]: "overflows r = (1024 < bit_length \<lfloor>r\<rfloor>)"
proof
  assume "overflows r"
  then have "(2 ^ 1024 :: rat) \<le> r" by (simp only: overflows_def)
  then have "of_int (2 ^ 1024) \<le> r" by simp
  then have ge: "2 ^ 1024 \<le> \<lfloor>r\<rfloor>" by (simp only: le_floor_iff)
  have "(0 :: int) < 2 ^ 1024" by (rule zero_less_power) simp
  with ge have pos: "0 < \<lfloor>r\<rfloor>" by linarith
  from bit_length_bounds [OF pos] ge have "(2 :: int) ^ 1024 < 2 ^ nat (bit_length \<lfloor>r\<rfloor>)"
    by linarith
  then have "1024 < nat (bit_length \<lfloor>r\<rfloor>)"
    by (rule power_less_imp_less_exp [rotated]) simp
  then show "1024 < bit_length \<lfloor>r\<rfloor>" by linarith
next
  assume b: "1024 < bit_length \<lfloor>r\<rfloor>"
  then have pos: "0 < \<lfloor>r\<rfloor>"
    using bit_length_nonpos [of "\<lfloor>r\<rfloor>"] by (cases "0 < \<lfloor>r\<rfloor>") auto
  from b have "(1024 :: nat) \<le> nat (bit_length \<lfloor>r\<rfloor> - 1)" by linarith
  then have "(2 :: int) ^ 1024 \<le> 2 ^ nat (bit_length \<lfloor>r\<rfloor> - 1)"
    by (intro power_increasing) simp_all
  with bit_length_bounds [OF pos] have "2 ^ 1024 \<le> \<lfloor>r\<rfloor>" by linarith
  then have "of_int (2 ^ 1024) \<le> r" by (simp only: le_floor_iff)
  then show "overflows r" by (simp add: overflows_def)
qed

lemma floor_log2_bounds:
  assumes "0 < x"
  shows "pow2 (floor_log2 x) \<le> x \<and> x < pow2 (floor_log2 x + 1)"
proof -
  obtain a b where q: "quotient_of x = (a, b)" by (cases "quotient_of x")
  have b: "0 < b" using quotient_of_denom_pos [OF q] .
  have x: "x = of_int a / of_int b" using quotient_of_div [OF q] .
  have a: "0 < a" using assms b by (simp add: x zero_less_divide_iff)
  define la where "la = bit_length a"
  define lb where "lb = bit_length b"
  from bit_length_bounds [OF a] have la: "1 \<le> la" "2 ^ nat (la - 1) \<le> a" "a < 2 ^ nat la"
    by (simp_all add: la_def)
  from bit_length_bounds [OF b] have lb: "1 \<le> lb" "2 ^ nat (lb - 1) \<le> b" "b < 2 ^ nat lb"
    by (simp_all add: lb_def)
  have ra: "pow2 (la - 1) \<le> of_int a" "of_int a < pow2 la"
    using la by (simp_all add: pow2_nonneg_exp del: of_int_power)
  have rb: "pow2 (lb - 1) \<le> of_int b" "of_int b < pow2 lb"
    using lb by (simp_all add: pow2_nonneg_exp del: of_int_power)
  have bpos: "(0::rat) < of_int b" using b by simp
  have up: "x < pow2 (la - lb + 1)"
  proof -
    have "of_int a < pow2 la" by (rule ra)
    also have "pow2 la = pow2 (la - lb + 1) * pow2 (lb - 1)"
      by (simp add: pow2_add [symmetric])
    also have "\<dots> \<le> pow2 (la - lb + 1) * of_int b"
      using rb(1) by (simp add: mult_left_mono)
    finally show ?thesis using bpos by (simp add: x pos_divide_less_eq)
  qed
  have lo: "pow2 (la - lb - 1) < x"
  proof -
    have "pow2 (la - lb - 1) * of_int b < pow2 (la - lb - 1) * pow2 lb"
      using rb(2) by (simp add: mult_strict_left_mono)
    also have "\<dots> = pow2 (la - 1)" by (simp add: pow2_add [symmetric])
    also have "\<dots> \<le> of_int a" by (rule ra)
    finally show ?thesis using bpos by (simp add: x pos_less_divide_eq)
  qed
  have fl: "floor_log2 x = (if pow2 (la - lb) \<le> x then la - lb else la - lb - 1)"
    by (simp add: floor_log2_def q la_def lb_def Let_def)
  show ?thesis
  proof (cases "pow2 (la - lb) \<le> x")
    case True
    then show ?thesis using up by (simp add: fl)
  next
    case False
    then show ?thesis using lo by (simp add: fl)
  qed
qed


lemma round_half_even_ge: "of_int n \<le> y \<Longrightarrow> n \<le> round_half_even y"
proof -
  assume "of_int n \<le> y"
  then have "n \<le> \<lfloor>y\<rfloor>" by (simp add: le_floor_iff)
  then show ?thesis by (simp add: round_half_even_def Let_def)
qed



lemma round_mag_ge_grid:
  assumes ge: "of_int N * pow2 j \<le> x" and N0: "0 \<le> N" and N: "N < 2 ^ 53"
      and j: "- 1074 \<le> j"
  shows "of_int N * pow2 j \<le> round_mag x"
proof (cases "x = 0")
  case True
  with ge show ?thesis by (simp add: round_mag_def)
next
  case False
  have "0 \<le> of_int N * pow2 j"
    using N0 by (intro mult_nonneg_nonneg) (simp_all add: less_imp_le)
  with ge False have pos: "0 < x" by simp
  define e where "e = max (floor_log2 x) (- 1022)"
  define q where "q = pow2 (e - 52)"
  have rm: "round_mag x = of_int (round_half_even (x / q)) * q"
    using False by (simp add: round_mag_def e_def q_def Let_def)
  have qpos: "0 < q" by (simp add: q_def)
  show ?thesis
  proof (cases "e \<le> j + 52")
    case True
    define M where "M = N * 2 ^ nat (j + 52 - e)"
    have "of_int N * pow2 j = of_int N * (pow2 (j + 52 - e) * pow2 (e - 52))"
      by (simp add: pow2_add [symmetric])
    also have "\<dots> = of_int M * q"
      using True by (simp add: M_def q_def pow2_nonneg_exp)
    finally have g: "of_int N * pow2 j = of_int M * q" .
    from ge qpos have "of_int M \<le> x / q" by (simp add: g pos_le_divide_eq)
    then have "M \<le> round_half_even (x / q)" by (rule round_half_even_ge)
    then have "of_int M * q \<le> of_int (round_half_even (x / q)) * q"
      using qpos by (simp add: mult_right_mono)
    then show ?thesis by (simp add: rm g)
  next
    case False
    with j have fl: "e = floor_log2 x" by (simp add: e_def max_def split: if_splits)
    have pe: "pow2 52 * q = pow2 e" by (simp add: q_def pow2_add [symmetric])
    also have "\<dots> \<le> x" using floor_log2_bounds [OF pos] by (simp add: fl)
    finally have "pow2 52 \<le> x / q" using qpos by (simp add: pos_le_divide_eq)
    then have "of_int (2 ^ 52) \<le> x / q" by (simp add: pow2_def)
    then have "2 ^ 52 \<le> round_half_even (x / q)" by (rule round_half_even_ge)
    then have "(of_int (2 ^ 52) :: rat) \<le> of_int (round_half_even (x / q))"
      by (simp only: of_int_le_iff)
    then have "of_int (2 ^ 52) * q \<le> of_int (round_half_even (x / q)) * q"
      using qpos by (intro mult_right_mono) simp_all
    moreover have "pow2 e = of_int (2 ^ 52) * q"
      using pe by (simp add: pow2_def [of 52])
    ultimately have "pow2 e \<le> round_mag x"
      by (simp add: rm)
    moreover have "(of_int N :: rat) < 2 ^ 53"
      using of_int_less_iff [where 'a = rat, of N "2 ^ 53"] N by simp
    then have "of_int N * pow2 j < 2 ^ 53 * pow2 j"
      by (intro mult_strict_right_mono) simp_all
    moreover have "2 ^ 53 * pow2 j = pow2 (j + 53)" by (rule pow2_53)
    moreover have "pow2 (j + 53) \<le> pow2 e" using False by simp
    ultimately show ?thesis by linarith
  qed
qed

section \<open>Properties of the gate evaluators\<close>

lemma bindE_Inl_iff: "bindE m f = Inl e \<longleftrightarrow> m = Inl e \<or> (\<exists>x. m = Inr x \<and> f x = Inl e)"
  by (cases m) (simp_all add: bindE_def)

lemma bindE_Inr [simp]: "bindE (Inr x) f = f x"
  by (simp add: bindE_def)

lemma bindE_Inl [simp]: "bindE (Inl e) f = Inl e"
  by (simp add: bindE_def)

lemma round_mag_int_pos: "1 \<le> i \<Longrightarrow> 1 \<le> round_mag (of_int i)"
  using round_mag_ge_grid [of 1 0 "of_int i"] by (simp add: pow2_def)


lemma float_of_int_not_zero_division [simp]: "float_of_int i \<noteq> Inl ZeroDivisionError"
  by (simp add: float_of_int_def Let_def)

lemma to_float_not_zero_division [simp]: "to_float x \<noteq> Inl ZeroDivisionError"
  by (cases x) simp_all

lemma float_of_int_zero: "float_of_int i = Inr f \<Longrightarrow> float_is_zero f \<Longrightarrow> i = 0"
proof (rule ccontr)
  assume f: "float_of_int i = Inr f" and z: "float_is_zero f" and "i \<noteq> 0"
  then have "1 \<le> \<bar>i\<bar>" by simp
  from round_mag_int_pos [OF this] have "round_mag (of_int \<bar>i\<bar>) \<noteq> 0" by simp
  with f z show False by (auto simp: float_of_int_def Let_def split: if_splits)
qed

text \<open>A division raises ZeroDivisionError only when the divisor equals zero.\<close>

lemma num_truediv_zero_division:
  assumes "num_truediv x y = Inl ZeroDivisionError"
  shows "num_val y = XFin 0"
proof (cases y)
  case (NInt b)
  show ?thesis
  proof (cases x)
    case (NInt a)
    with assms \<open>y = NInt b\<close> show ?thesis
      by (auto simp: int_truediv_def Let_def split: if_splits)
  next
    case (NFloat f)
    with assms \<open>y = NInt b\<close> show ?thesis
      by (auto simp: bindE_Inl_iff dest: float_of_int_zero split: if_splits)
  qed
next
  case (NFloat g)
  have z: "float_is_zero g \<Longrightarrow> num_val (NFloat g) = XFin 0"
    by (cases g) auto
  from assms NFloat show ?thesis
    by (cases x) (auto simp: bindE_Inl_iff dest: z split: if_splits)
qed

lemma py_truediv_positive:
  assumes "py_gt tot (NInt 0) = Inr True"
  shows "py_truediv pas tot \<noteq> Inl ZeroDivisionError"
proof
  assume zd: "py_truediv pas tot = Inl ZeroDivisionError"
  from assms obtain t where t: "as_num tot = Some t" and gt: "num_gt t (NInt 0)"
    by (auto simp: py_gt_def split: option.splits)
  from zd t obtain p where "num_truediv p t = Inl ZeroDivisionError"
    by (auto simp: py_truediv_def split: option.splits)
  from num_truediv_zero_division [OF this] gt show False
    by (simp add: num_gt_def)
qed

lemma py_get_not_zero_division [simp]: "py_get x k d \<noteq> Inl ZeroDivisionError"
  by (cases x) simp_all

lemma py_gt_not_zero_division [simp]: "py_gt x c \<noteq> Inl ZeroDivisionError"
  by (simp add: py_gt_def split: option.splits)

lemma format_percent_not_zero_division [simp]: "format_percent p x \<noteq> Inl ZeroDivisionError"
  by (simp add: format_percent_def bindE_Inl_iff)

lemma py_get_dict: "py_get x k d = Inr v \<Longrightarrow> \<exists>kvs. x = JDict kvs"
  by (cases x) simp_all

text \<open>
  C5: when the summary of a present integration artifact has \<^verbatim>\<open>total == 0\<close>, the gate
  fails with "No integration tests run", whatever \<^verbatim>\<open>passed\<close> and \<^verbatim>\<open>failed\<close> hold (they
  are not even required to be numbers: no division is attempted); and on no input at
  all does \<^verbatim>\<open>check_integration_gate\<close> raise ZeroDivisionError.
\<close>

theorem integration_gate_no_division_by_zero:
  "(py_get integration_data ''summary'' (JDict []) = Inr summary \<and>
    py_get summary ''total'' (JInt 0) = Inr tot \<and> py_eq tot (NInt 0) \<longrightarrow>
      check_integration_gate integration_data = Inr (False, ''No integration tests run'')) \<and>
   check_integration_gate integration_data \<noteq> Inl ZeroDivisionError"
proof (intro conjI impI)
  assume a: "py_get integration_data ''summary'' (JDict []) = Inr summary \<and>
    py_get summary ''total'' (JInt 0) = Inr tot \<and> py_eq tot (NInt 0)"
  then obtain kvs where s: "summary = JDict kvs" by (auto dest: py_get_dict)
  from a have "integration_data \<noteq> JNull" by auto
  with a s show "check_integration_gate integration_data = Inr (False, ''No integration tests run'')"
    by (simp add: check_integration_gate_def)
next
  show "check_integration_gate integration_data \<noteq> Inl ZeroDivisionError"
  proof
    assume "check_integration_gate integration_data = Inl ZeroDivisionError"
    then obtain tot pas positive
      where pos: "py_gt tot (NInt 0) = Inr positive"
        and d: "(if positive then py_truediv pas tot else Inr (NInt 0)) = Inl ZeroDivisionError"
      by (auto simp: check_integration_gate_def bindE_Inl_iff split: if_splits)
    then show False using py_truediv_positive [of tot pas]
      by (auto split: if_splits)
  qed
qed

lemma num_le_not_gt: "num_val a \<noteq> XNaN \<Longrightarrow> num_le a (NInt c) = (\<not> num_gt a (NInt c))"
  by (cases "num_val a") (auto simp: num_le_def num_lt_def num_gt_def num_eq_def)

text \<open>
  C6, as claimed: on a present artifact the performance gate passes exactly when
  \<^verbatim>\<open>latency.p95 <= 1000\<close>. \<^verbatim>\<open>json.load\<close> accepts the token \<^verbatim>\<open>NaN\<close>; with that P95 the test
  \<^verbatim>\<open>latency_p95 > 1000\<close> of the script is false and the gate passes, although
  \<^verbatim>\<open>NaN <= 1000\<close> is false as well.
\<close>

theorem performance_gate_passes_nan:
  "py_get perf_nan ''latency'' (JDict []) =
     Inr (JDict [(''p50'', JInt 120), (''p95'', JFloat NaN)]) \<and>
   py_get (JDict [(''p50'', JInt 120), (''p95'', JFloat NaN)]) ''p95'' (JInt 0) =
     Inr (JFloat NaN) \<and>
   as_num (JFloat NaN) = Some (NFloat NaN) \<and>
   check_performance_gate perf_nan = Inr (True, ''Performance metrics acceptable (P95: nanms)'') \<and>
   \<not> num_le (NFloat NaN) (NInt 1000)"
  by code_simp

text \<open>
  C6, amended: the performance gate passes an absent artifact with a message that
  mentions "optional"; on a present artifact whose P95 latency is a number it fails
  exactly when that number is greater than 1000. So 1000 passes and 1001 fails; for
  every number but \<^verbatim>\<open>NaN\<close> the gate passes exactly when the number is at most 1000, and
  \<^verbatim>\<open>NaN\<close> passes.
\<close>

theorem performance_gate_rule:
  "check_performance_gate JNull = Inr (True, ''Performance data not available (optional)'') \<and>
   mentions ''Performance data not available (optional)'' ''optional'' \<and>
   (py_get perf_data ''latency'' (JDict []) = Inr latency \<and>
    py_get latency ''p95'' (JInt 0) = Inr v \<and> as_num v = Some p95 \<longrightarrow>
      (\<exists>msg. check_performance_gate perf_data = Inr (\<not> num_gt p95 (NInt 1000), msg)) \<and>
      (num_val p95 \<noteq> XNaN \<longrightarrow> (\<not> num_gt p95 (NInt 1000)) = num_le p95 (NInt 1000)) \<and>
      (num_val p95 = XNaN \<longrightarrow> \<not> num_gt p95 (NInt 1000))) \<and>
   check_performance_gate (JDict [(''latency'', JDict [(''p95'', JInt 1000)])]) =
     Inr (True, ''Performance metrics acceptable (P95: 1000ms)'') \<and>
   check_performance_gate (JDict [(''latency'', JDict [(''p95'', JInt 1001)])]) =
     Inr (False, ''P95 latency too high: 1001ms (threshold: 1000ms)'')"
proof (intro conjI impI)
  show "check_performance_gate JNull = Inr (True, ''Performance data not available (optional)'')"
    by (simp add: check_performance_gate_def)
  show "mentions ''Performance data not available (optional)'' ''optional''"
    by code_simp
  show "check_performance_gate (JDict [(''latency'', JDict [(''p95'', JInt 1000)])]) =
      Inr (True, ''Performance metrics acceptable (P95: 1000ms)'')"
    by code_simp
  show "check_performance_gate (JDict [(''latency'', JDict [(''p95'', JInt 1001)])]) =
      Inr (False, ''P95 latency too high: 1001ms (threshold: 1000ms)'')"
    by code_simp
next
  assume a: "py_get perf_data ''latency'' (JDict []) = Inr latency \<and>
    py_get latency ''p95'' (JInt 0) = Inr v \<and> as_num v = Some p95"
  then obtain kvs where l: "latency = JDict kvs" by (auto dest: py_get_dict)
  from a have "perf_data \<noteq> JNull" by auto
  with a l show "\<exists>msg. check_performance_gate perf_data = Inr (\<not> num_gt p95 (NInt 1000), msg)"
    by (simp add: check_performance_gate_def py_gt_def)
next
  assume "num_val p95 \<noteq> XNaN"
  then show "(\<not> num_gt p95 (NInt 1000)) = num_le p95 (NInt 1000)"
    by (simp add: num_le_not_gt)
next
  assume "num_val p95 = XNaN"
  then show "\<not> num_gt p95 (NInt 1000)"
    by (simp add: num_gt_def)
qed

lemma format_percent_zero: "format_percent (Suc 0) (NInt 0) = Inr ''0.0%''"
  by code_simp

lemma zero_below_accuracy_threshold: "num_lt (NInt 0) (NFloat (float_lit (9 / 10)))"
  by code_simp

text \<open>
  C10: a present model artifact without the key \<^verbatim>\<open>accuracy\<close> fails the model gate: the
  default 0 is below the threshold 0.9. An absent artifact passes as optional.
\<close>

theorem model_gate_missing_accuracy:
  "(map_of kvs ''accuracy'' = None \<longrightarrow>
      check_model_gate (JDict kvs) = Inr (False, ''Model accuracy too low: 0.0% (required: 90%)'')) \<and>
   check_model_gate JNull = Inr (True, ''Model validation data not available (optional)'')"
  by (simp add: check_model_gate_def py_lt_def py_format_percent_def
      format_percent_zero zero_below_accuracy_threshold)


lemma format_fixed_float [simp]: "format_fixed p (NFloat f) = Inr (fmt_fixed p f)"
  by (simp add: format_fixed_def)




text \<open>
  With floats the verdict can also depend on the interpreter: the four events of
  \<open>cancelling_events\<close> have the exact mean 5000.5; the plain sum is 20000 and the gate
  passes, the compensated sum is 20002 and the gate fails.
\<close>

lemma chaos_gate_depends_on_interpreter:
  "check_chaos_gate plain_sum chaos_cancelling =
     Inr (True, ''Chaos tests passed: 4 healing events, avg recovery: 5000ms'') \<and>
   check_chaos_gate compensated_sum chaos_cancelling =
     Inr (False, ''Average recovery time too high: 5000ms (threshold: 5000ms)'')"
  by code_simp


theorem integration_gate_no_division_by_zero_witness:
  "py_get (JDict [(''summary'', empty_summary)]) ''summary'' (JDict []) = Inr empty_summary \<and>
   py_get empty_summary ''total'' (JInt 0) = Inr (JInt 0) \<and>
   py_eq (JInt 0) (NInt 0) \<and>
   check_integration_gate (JDict [(''summary'', empty_summary)]) =
     Inr (False, ''No integration tests run'') \<and>
   check_integration_gate (JDict [(''summary'', empty_summary)]) \<noteq> Inl ZeroDivisionError"
proof -
  have s: "py_get (JDict [(''summary'', empty_summary)]) ''summary'' (JDict []) = Inr empty_summary"
    by simp
  have t: "py_get empty_summary ''total'' (JInt 0) = Inr (JInt 0)"
    by (simp add: empty_summary_def)
  have z: "py_eq (JInt 0) (NInt 0)"
    by (simp add: py_eq_def num_eq_def)
  from integration_gate_no_division_by_zero
         [of "JDict [(''summary'', empty_summary)]" empty_summary "JInt 0"] s t z
  show ?thesis by blast
qed

theorem performance_gate_rule_witness:
  "py_get sample_perf ''latency'' (JDict []) = Inr (JDict [(''p50'', JInt 120), (''p95'', JInt 1001)]) \<and>
   py_get (JDict [(''p50'', JInt 120), (''p95'', JInt 1001)]) ''p95'' (JInt 0) = Inr (JInt 1001) \<and>
   as_num (JInt 1001) = Some (NInt 1001) \<and>
   (\<exists>msg. check_performance_gate sample_perf = Inr (\<not> num_gt (NInt 1001) (NInt 1000), msg)) \<and>
   num_val (NInt 1001) \<noteq> XNaN \<and>
   (\<not> num_gt (NInt 1001) (NInt 1000)) = num_le (NInt 1001) (NInt 1000) \<and>
   py_get perf_nan ''latency'' (JDict []) = Inr (JDict [(''p50'', JInt 120), (''p95'', JFloat NaN)]) \<and>
   py_get (JDict [(''p50'', JInt 120), (''p95'', JFloat NaN)]) ''p95'' (JInt 0) = Inr (JFloat NaN) \<and>
   as_num (JFloat NaN) = Some (NFloat NaN) \<and>
   (\<exists>msg. check_performance_gate perf_nan = Inr (\<not> num_gt (NFloat NaN) (NInt 1000), msg)) \<and>
   num_val (NFloat NaN) = XNaN \<and>
   \<not> num_gt (NFloat NaN) (NInt 1000)"
proof -
  have l: "py_get sample_perf ''latency'' (JDict []) =
      Inr (JDict [(''p50'', JInt 120), (''p95'', JInt 1001)])"
    by (simp add: sample_perf_def)
  have p: "py_get (JDict [(''p50'', JInt 120), (''p95'', JInt 1001)]) ''p95'' (JInt 0) = Inr (JInt 1001)"
    by simp
  have n: "as_num (JInt 1001) = Some (NInt 1001)" "num_val (NInt 1001) \<noteq> XNaN"
    by simp_all
  have l': "py_get perf_nan ''latency'' (JDict []) =
      Inr (JDict [(''p50'', JInt 120), (''p95'', JFloat NaN)])"
    by (simp add: perf_nan_def)
  have p': "py_get (JDict [(''p50'', JInt 120), (''p95'', JFloat NaN)]) ''p95'' (JInt 0) =
      Inr (JFloat NaN)"
    by simp
  have n': "as_num (JFloat NaN) = Some (NFloat NaN)" "num_val (NFloat NaN) = XNaN"
    by simp_all
  note t1 = performance_gate_rule
      [of sample_perf "JDict [(''p50'', JInt 120), (''p95'', JInt 1001)]" "JInt 1001" "NInt 1001"]
  note t2 = performance_gate_rule
      [of perf_nan "JDict [(''p50'', JInt 120), (''p95'', JFloat NaN)]" "JFloat NaN" "NFloat NaN"]
  from t1 l p n have a:
    "\<exists>msg. check_performance_gate sample_perf = Inr (\<not> num_gt (NInt 1001) (NInt 1000), msg)"
    "(\<not> num_gt (NInt 1001) (NInt 1000)) = num_le (NInt 1001) (NInt 1000)"
    by blast+
  from t2 l' p' n' have b:
    "\<exists>msg. check_performance_gate perf_nan = Inr (\<not> num_gt (NFloat NaN) (NInt 1000), msg)"
    "\<not> num_gt (NFloat NaN) (NInt 1000)"
    by blast+
  from l p n a l' p' n' b show ?thesis by blast
qed

theorem model_gate_missing_accuracy_witness:
  "map_of [(''model'', JStr ''intent-v2''), (''f1'', JInt 1)] ''accuracy'' = None \<and>
   check_model_gate (JDict [(''model'', JStr ''intent-v2''), (''f1'', JInt 1)]) =
     Inr (False, ''Model accuracy too low: 0.0% (required: 90%)'')"
proof -
  have m: "map_of [(''model'', JStr ''intent-v2''), (''f1'', JInt 1)] ''accuracy'' = None"
    by simp
  from model_gate_missing_accuracy [of "[(''model'', JStr ''intent-v2''), (''f1'', JInt 1)]"] m
  show ?thesis by blast
qed


section \<open>Properties of a run\<close>

lemma bindP_assoc: "bindP (bindP m f) g = bindP m (\<lambda>x. bindP (f x) g)"
  by (rule ext) (simp add: bindP_def split: prod.splits sum.splits)

lemma bindP_liftE_Inr: "bindP (liftE (Inr x)) f = f x"
  by (rule ext) (simp add: bindP_def liftE_def)

lemma liftE_bindE: "liftE (bindE m f) = bindP (liftE m) (\<lambda>x. liftE (f x))"
  by (rule ext) (simp add: bindP_def bindE_def liftE_def split: sum.splits)

lemma map_gates_id: "map (\<lambda>(name, (passed, message)). (name, (passed, message))) gs = gs"
  by (induction gs) auto

lemma main_stages:
  "main py w a =
     bindP (load_all w a) (\<lambda>d. bindP (liftE (evaluate_all py d)) (\<lambda>gs. finish w a gs))"
  by (simp add: main_def load_all_def evaluate_all_def finish_def build_result_def Let_def
      bindP_assoc bindP_liftE_Inr liftE_bindE map_gates_id)

lemma bindP_elim:
  assumes "bindP m f fx = (r, fx')"
  obtains (raised) e where "m fx = (Inl e, fx')" "r = Inl e"
        | (returned) x fx1 where "m fx = (Inr x, fx1)" "f x fx1 = (r, fx')"
  using assms by (auto simp: bindP_def split: prod.splits sum.splits)

text \<open>Loading writes no file and prints nothing on stdout.\<close>

lemma load_json_file_effects:
  "load_json_file w p fx = (r, fx') \<Longrightarrow> files fx' = files fx \<and> stdout fx' = stdout fx"
  by (auto simp: load_json_file_def liftE_def bindP_def print_err_def
      split: if_splits sum.splits prod.splits option.splits)

lemma load_if_given_effects:
  "load_if_given w x fx = (r, fx') \<Longrightarrow> files fx' = files fx \<and> stdout fx' = stdout fx"
  by (auto simp: load_if_given_def liftE_def dest: load_json_file_effects
      split: option.splits if_splits)

lemma load_all_effects:
  assumes "load_all w a fx = (r, fx')"
  shows "files fx' = files fx \<and> stdout fx' = stdout fx"
proof -
  note e = load_if_given_effects
  from assms show ?thesis
    unfolding load_all_def
    by (elim bindP_elim) (auto simp: liftE_def dest!: e)
qed

text \<open>
  Printing writes no file. It returns when every line can be printed, and then all of
  them are on stdout; otherwise it raises.
\<close>

lemma print_out_outcome:
  "print_out w ls fx = (r, fx') \<Longrightarrow>
     files fx' = files fx \<and>
     (r = Inr () \<and> stdout fx' = stdout fx @ ls \<and> list_all (\<lambda>l. print_line w l = None) ls \<or>
      (\<exists>e. r = Inl e) \<and> \<not> list_all (\<lambda>l. print_line w l = None) ls)"
proof (induction ls arbitrary: fx)
  case Nil
  then show ?case by auto
next
  case (Cons l ls)
  show ?case
  proof (cases "print_line w l")
    case None
    with Cons.prems have "print_out w ls (fx\<lparr>stdout := stdout fx @ [l]\<rparr>) = (r, fx')"
      by simp
    from Cons.IH [OF this] None show ?thesis by auto
  next
    case (Some e)
    with Cons.prems show ?thesis by auto
  qed
qed

lemma finish_outcome:
  assumes "finish w a gs fx = (r, fx')"
  shows "(\<exists>e. r = Inl e \<and> write_report w (output_path a) = Some e \<and> fx' = fx) \<or>
         write_report w (output_path a) = None \<and>
         files fx' = files fx @ [(output_path a, build_result gs)] \<and>
         (r = Inr (if passed (build_result gs) then 0 else 1) \<and>
          stdout fx' = stdout fx @ summary_lines gs (passed (build_result gs)) \<and>
          list_all (\<lambda>l. print_line w l = None) (summary_lines gs (passed (build_result gs))) \<or>
          (\<exists>e. r = Inl e) \<and>
          \<not> list_all (\<lambda>l. print_line w l = None) (summary_lines gs (passed (build_result gs))))"
proof (cases "write_report w (output_path a)")
  case (Some e)
  with assms show ?thesis
    by (auto simp: finish_def bindP_def write_result_def)
next
  case None
  define fx1 where "fx1 = fx\<lparr>files := files fx @ [(output_path a, build_result gs)]\<rparr>"
  from assms None obtain r1 where
    p: "print_out w (summary_lines gs (passed (build_result gs))) fx1 = (r1, fx')"
    and r: "r = (case r1 of Inl e \<Rightarrow> Inl e
                 | Inr u \<Rightarrow> Inr (if passed (build_result gs) then 0 else 1))"
    by (auto simp: finish_def bindP_def write_result_def liftE_def fx1_def
        split: prod.splits sum.splits)
  from print_out_outcome [OF p] r None show ?thesis
    by (auto simp: fx1_def)
qed

text \<open>
  A run either raises before anything is written or printed, or it loaded the
  artifacts, every evaluator returned, and the report built from the verdicts was
  written; then it returns its code if the summary could be printed and raises if not.
\<close>

lemma main_outcome:
  assumes "main py w a fx0 = (r, fx)"
  shows "(\<exists>e. r = Inl e \<and> files fx = files fx0 \<and> stdout fx = stdout fx0) \<or>
         (\<exists>d fx1 gs. load_all w a fx0 = (Inr d, fx1) \<and> evaluate_all py d = Inr gs \<and>
            write_report w (output_path a) = None \<and>
            files fx = files fx0 @ [(output_path a, build_result gs)] \<and>
            (r = Inr (if passed (build_result gs) then 0 else 1) \<and>
             stdout fx = stdout fx0 @ summary_lines gs (passed (build_result gs)) \<and>
             list_all (\<lambda>l. print_line w l = None) (summary_lines gs (passed (build_result gs))) \<or>
             (\<exists>e. r = Inl e) \<and>
             \<not> list_all (\<lambda>l. print_line w l = None)
                  (summary_lines gs (passed (build_result gs)))))"
  using assms unfolding main_stages
proof (cases rule: bindP_elim)
  case (raised e)
  then show ?thesis by (auto dest: load_all_effects)
next
  case (returned d fx1)
  note eff = load_all_effects [OF returned(1)]
  from returned(2) show ?thesis
  proof (cases rule: bindP_elim)
    case (raised e)
    then show ?thesis using eff by (auto simp: liftE_def)
  next
    case (returned gs fx2)
    then have gs: "evaluate_all py d = Inr gs" and fx2: "fx2 = fx1" by (auto simp: liftE_def)
    from finish_outcome [OF returned(2)] fx2 eff gs \<open>load_all w a fx0 = (Inr d, fx1)\<close>
    show ?thesis by auto
  qed
qed

text \<open>The sample runs, evaluated.\<close>

lemma sample_run: "main plain_sum sample_world sample_args no_effects = (Inr 1, sample_effects)"
  by code_simp

lemma other_run: "main plain_sum other_world other_args no_effects = (Inr 1, other_effects)"
  by code_simp

lemma ascii_run:
  "main plain_sum ascii_world ascii_args no_effects = (Inl UnicodeEncodeError, ascii_effects)"
  by code_simp

lemma sample_written: "(''out/gates.json'', sample_report) \<in> set (files sample_effects)"
  by (simp add: sample_effects_def)

lemma other_written: "(''report.json'', sample_report) \<in> set (files other_effects)"
  by (simp add: other_effects_def)

lemma ascii_written: "(''gates.json'', passing_report) \<in> set (files ascii_effects)"
  by (simp add: ascii_effects_def)

text \<open>
  C3: in every report a run writes, the overall \<^verbatim>\<open>passed\<close> field is the conjunction of
  the \<^verbatim>\<open>passed\<close> flags of all gate verdicts in that report.
\<close>

theorem overall_passed_is_conjunction:
  assumes "main py w a no_effects = (r, fx)" and "(path, rep) \<in> set (files fx)"
  shows "passed rep = list_all (\<lambda>(name, (p, msg)). p) (gates rep)"
  using main_outcome [OF assms(1)] assms(2)
  by (auto simp: no_effects_def build_result_def)

theorem overall_passed_is_conjunction_witness:
  "main plain_sum sample_world sample_args no_effects = (Inr 1, sample_effects) \<and>
   (''out/gates.json'', sample_report) \<in> set (files sample_effects) \<and>
   passed sample_report = list_all (\<lambda>(name, (p, msg)). p) (gates sample_report) \<and>
   main plain_sum ascii_world ascii_args no_effects = (Inl UnicodeEncodeError, ascii_effects) \<and>
   (''gates.json'', passing_report) \<in> set (files ascii_effects) \<and>
   passed passing_report = list_all (\<lambda>(name, (p, msg)). p) (gates passing_report)"
  using overall_passed_is_conjunction [OF sample_run sample_written] sample_run sample_written
    overall_passed_is_conjunction [OF ascii_run ascii_written] ascii_run ascii_written
  by blast

text \<open>
  C4, as claimed: whenever the report has been written, the exit status is 0 if its
  \<^verbatim>\<open>passed\<close> field is true and 1 if it is false. The summary is printed after the
  report is written, and its lines carry the marks U+2705 and U+274C. On a stdout whose
  encoding lacks them \<^verbatim>\<open>print\<close> raises UnicodeEncodeError: with every gate passed the
  report on disk says \<^verbatim>\<open>passed: true\<close> and the process exits with status 1.
\<close>

theorem exit_status_one_with_passed_report:
  "run plain_sum ascii_world ascii_args = (1, ascii_effects) \<and>
   (''gates.json'', passing_report) \<in> set (files ascii_effects) \<and>
   passed passing_report"
  by code_simp

text \<open>
  C4, amended: whenever the report has been written, every line of the summary could
  be printed and flushing stdout at exit does not fail, the exit status of the process
  is 0 if the report's \<^verbatim>\<open>passed\<close> field is true and 1 if it is false, whichever gates
  failed.
\<close>

theorem exit_status_zero_or_one:
  assumes "run py w a = (status, fx)" and "(path, rep) \<in> set (files fx)"
      and "list_all (\<lambda>l. print_line w l = None) (summary_lines (gates rep) (passed rep))"
      and "\<not> flush_fails w"
  shows "status = (if passed rep then 0 else 1)"
proof -
  obtain r where m: "main py w a no_effects = (r, fx)" and st: "status = exit_status w r"
    using assms(1) by (auto simp: run_def split: prod.splits)
  from main_outcome [OF m] assms(2,3,4) st show ?thesis
    by (auto simp: no_effects_def exit_status_def build_result_def)
qed

theorem exit_status_zero_or_one_witness:
  "run plain_sum sample_world sample_args = (1, sample_effects) \<and>
   (''out/gates.json'', sample_report) \<in> set (files sample_effects) \<and>
   list_all (\<lambda>l. print_line sample_world l = None)
     (summary_lines (gates sample_report) (passed sample_report)) \<and>
   \<not> flush_fails sample_world \<and>
   (1 :: int) = (if passed sample_report then 0 else 1)"
proof -
  have f: "\<not> flush_fails sample_world"
    by (simp add: sample_world_def)
  have r: "run plain_sum sample_world sample_args = (1, sample_effects)"
    by (simp add: run_def sample_run exit_status_def f)
  have p: "list_all (\<lambda>l. print_line sample_world l = None)
      (summary_lines (gates sample_report) (passed sample_report))"
    by (simp add: sample_world_def list_all_iff)
  from exit_status_zero_or_one [OF r sample_written p f] r sample_written p f show ?thesis
    by blast
qed

text \<open>
  C1 (the script departs from it): the claim is that the \<^verbatim>\<open>timestamp\<close> of every written
  report is a well-formed ISO-8601 UTC timestamp. In the script the field is
  \<^verbatim>\<open>json.dumps({})\<close>, with the comment "Will be replaced with actual timestamp", and is
  never replaced: every report a run writes carries the two characters \<^verbatim>\<open>{}\<close>, which
  are no timestamp.
\<close>

theorem timestamp_is_empty_object:
  assumes "main py w a no_effects = (r, fx)" and "(path, rep) \<in> set (files fx)"
  shows "timestamp rep = ''{}'' \<and> \<not> iso8601_utc (timestamp rep)"
proof -
  have "\<not> iso8601_utc ''{}''" by code_simp
  with main_outcome [OF assms(1)] assms(2) show ?thesis
    by (auto simp: no_effects_def build_result_def)
qed

theorem timestamp_is_empty_object_witness:
  "main plain_sum sample_world sample_args no_effects = (Inr 1, sample_effects) \<and>
   (''out/gates.json'', sample_report) \<in> set (files sample_effects) \<and>
   timestamp sample_report = ''{}'' \<and> \<not> iso8601_utc (timestamp sample_report)"
  using timestamp_is_empty_object [OF sample_run sample_written] sample_run sample_written
  by blast

text \<open>
  C2, as claimed: an exception raised by one evaluator is caught, becomes a failing
  verdict, and the other gates are still evaluated and reported. The script has no
  handler around the evaluators. With the integration artifact \<^verbatim>\<open>[]\<close> the integration
  evaluator raises AttributeError (a list has no \<^verbatim>\<open>get\<close>), and the run ends with that
  exception: no report is written and nothing is printed.
\<close>

theorem evaluator_exception_aborts_run:
  "load_all list_world list_args no_effects = (Inr (JList [], JNull, JNull, JNull), no_effects) \<and>
   check_integration_gate (JList []) = Inl AttributeError \<and>
   main plain_sum list_world list_args no_effects = (Inl AttributeError, no_effects) \<and>
   files no_effects = [] \<and> stdout no_effects = []"
  by code_simp

text \<open>
  C2, amended: an exception raised by a gate evaluator is not caught. The first one,
  in the order integration, performance, chaos, models, leaves \<^verbatim>\<open>main\<close>; no report is
  written and no summary printed. When no evaluator raises and the report can be
  written, the report holds the verdicts of all four gates, in that order.
\<close>

theorem evaluator_exception_leaves_main:
  assumes "load_all w a fx0 = (Inr (i, p, c, m), fx1)"
  shows "(\<forall>e. first_raised [check_integration_gate i, check_performance_gate p,
                           check_chaos_gate py c, check_model_gate m] = Some e \<longrightarrow>
              main py w a fx0 = (Inl e, fx1) \<and> files fx1 = files fx0 \<and> stdout fx1 = stdout fx0) \<and>
         (\<forall>g1 g2 g3 g4.
              check_integration_gate i = Inr g1 \<and> check_performance_gate p = Inr g2 \<and>
              check_chaos_gate py c = Inr g3 \<and> check_model_gate m = Inr g4 \<and>
              write_report w (output_path a) = None \<longrightarrow>
              (\<exists>r fx rep. main py w a fx0 = (r, fx) \<and>
                 files fx = files fx0 @ [(output_path a, rep)] \<and>
                 gates rep = [(''integration'', g1), (''performance'', g2),
                              (''chaos'', g3), (''models'', g4)] \<and>
                 (list_all (\<lambda>l. print_line w l = None) (summary_lines (gates rep) (passed rep)) =
                  (\<exists>code. r = Inr code))))"
proof -
  note eff = load_all_effects [OF assms]
  have run: "main py w a fx0 =
      (case evaluate_all py (i, p, c, m) of
         Inl e \<Rightarrow> (Inl e, fx1) | Inr gs \<Rightarrow> finish w a gs fx1)"
    by (simp add: main_stages bindP_def assms liftE_def split: sum.splits)
  have raised: "main py w a fx0 = (Inl e, fx1)"
    if "first_raised [check_integration_gate i, check_performance_gate p,
                      check_chaos_gate py c, check_model_gate m] = Some e" for e
    using that unfolding run
    by (cases "check_integration_gate i"; cases "check_performance_gate p";
        cases "check_chaos_gate py c"; cases "check_model_gate m")
       (simp_all add: evaluate_all_def bindE_def)
  have returned: "\<exists>r fx rep. main py w a fx0 = (r, fx) \<and>
        files fx = files fx0 @ [(output_path a, rep)] \<and>
        gates rep = [(''integration'', g1), (''performance'', g2), (''chaos'', g3), (''models'', g4)] \<and>
        (list_all (\<lambda>l. print_line w l = None) (summary_lines (gates rep) (passed rep)) =
         (\<exists>code. r = Inr code))"
    if g: "check_integration_gate i = Inr g1" "check_performance_gate p = Inr g2"
       "check_chaos_gate py c = Inr g3" "check_model_gate m = Inr g4"
       and wr: "write_report w (output_path a) = None" for g1 g2 g3 g4
  proof -
    define gs where "gs = [(''integration'', g1), (''performance'', g2), (''chaos'', g3), (''models'', g4)]"
    have ev: "evaluate_all py (i, p, c, m) = Inr gs"
      using g by (simp add: evaluate_all_def gs_def)
    obtain r fx where f: "finish w a gs fx1 = (r, fx)" by (cases "finish w a gs fx1")
    have m: "main py w a fx0 = (r, fx)" by (simp add: run ev f)
    from finish_outcome [OF f] wr eff
    have "files fx = files fx0 @ [(output_path a, build_result gs)] \<and>
        (list_all (\<lambda>l. print_line w l = None)
           (summary_lines (gates (build_result gs)) (passed (build_result gs))) =
         (\<exists>code. r = Inr code))"
      by (auto simp: build_result_def)
    with m show ?thesis
      unfolding gs_def [symmetric]
      by (intro exI [of _ r] exI [of _ fx] exI [of _ "build_result gs"])
         (simp add: build_result_def)
  qed
  from raised returned eff show ?thesis by blast
qed

theorem evaluator_exception_leaves_main_witness:
  "load_all list_world list_args no_effects = (Inr (JList [], JNull, JNull, JNull), no_effects) \<and>
   first_raised [check_integration_gate (JList []), check_performance_gate JNull,
                 check_chaos_gate plain_sum JNull, check_model_gate JNull] = Some AttributeError \<and>
   main plain_sum list_world list_args no_effects = (Inl AttributeError, no_effects) \<and>
   load_all other_world other_args no_effects =
     (Inr (sample_integration, sample_perf, JNull, JNull), no_effects) \<and>
   write_report other_world (output_path other_args) = None \<and>
   (\<exists>r fx rep. main plain_sum other_world other_args no_effects = (r, fx) \<and>
      files fx = files no_effects @ [(output_path other_args, rep)] \<and>
      gates rep = sample_gates)"
proof -
  have l1: "load_all list_world list_args no_effects =
      (Inr (JList [], JNull, JNull, JNull), no_effects)"
    by code_simp
  have f1: "first_raised [check_integration_gate (JList []), check_performance_gate JNull,
      check_chaos_gate plain_sum JNull, check_model_gate JNull] = Some AttributeError"
    by code_simp
  have l2: "load_all other_world other_args no_effects =
      (Inr (sample_integration, sample_perf, JNull, JNull), no_effects)"
    by code_simp
  have g1: "check_integration_gate sample_integration =
      Inr (True, ''Integration tests passed: 80/100 (80.0%)'')"
    by code_simp
  have g2: "check_performance_gate sample_perf =
      Inr (False, ''P95 latency too high: 1001ms (threshold: 1000ms)'')"
    by code_simp
  have g3: "check_chaos_gate plain_sum JNull =
      Inr (True, ''Chaos test data not available (optional)'')"
    by code_simp
  have g4: "check_model_gate JNull = Inr (True, ''Model validation data not available (optional)'')"
    by code_simp
  have w2: "write_report other_world (output_path other_args) = None"
    by (simp add: other_world_def)
  from evaluator_exception_leaves_main [OF l1, of plain_sum] f1
  have a: "main plain_sum list_world list_args no_effects = (Inl AttributeError, no_effects)"
    by blast
  from evaluator_exception_leaves_main [OF l2, of plain_sum] g1 g2 g3 g4 w2
  have b: "\<exists>r fx rep. main plain_sum other_world other_args no_effects = (r, fx) \<and>
      files fx = files no_effects @ [(output_path other_args, rep)] \<and>
      gates rep = sample_gates"
    unfolding sample_gates_def by blast
  from l1 f1 a l2 w2 b show ?thesis by blast
qed

text \<open>
  The branch of the loader that its \<^verbatim>\<open>except\<close> clause covers: when reading or parsing
  raises \<^verbatim>\<open>json.JSONDecodeError\<close> or \<^verbatim>\<open>IOError\<close>, the loader prints one warning on
  stderr, naming the path and the error, and returns \<^verbatim>\<open>None\<close>.
\<close>

lemma load_json_file_caught:
  assumes "path_exists w filepath" and "read_json w filepath = Inl (e, text)"
      and "e = JSONDecodeError \<or> e = OSError"
      and "print_err_line w (''Warning: Failed to load '' @ filepath @ '': '' @ text) = None"
  shows "load_json_file w filepath fx =
           (Inr JNull,
            fx\<lparr>stderr := stderr fx @ [''Warning: Failed to load '' @ filepath @ '': '' @ text]\<rparr>)"
  using assms by (auto simp: load_json_file_def bindP_def print_err_def liftE_def)

text \<open>
  C8 (the script departs from it): the claim is that for any content of an existing
  file that does not parse, the loader returns \<^verbatim>\<open>None\<close> with a warning and never raises.
  The loader is written to absorb a failed load, but its \<^verbatim>\<open>except\<close> clause names
  \<^verbatim>\<open>json.JSONDecodeError\<close> and \<^verbatim>\<open>IOError\<close> only. Reading a file whose bytes are not text
  raises UnicodeDecodeError, which is neither: the loader raises it, prints no warning,
  and the run ends with it.
\<close>

theorem loader_raises_on_undecodable_file:
  "path_exists binary_world ''chaos.json'' \<and>
   read_json binary_world ''chaos.json'' =
     Inl (UnicodeDecodeError,
          ''utf-8 codec cannot decode byte 0xff in position 0: invalid start byte'') \<and>
   load_json_file binary_world ''chaos.json'' no_effects = (Inl UnicodeDecodeError, no_effects) \<and>
   stderr no_effects = [] \<and>
   main plain_sum binary_world binary_args no_effects = (Inl UnicodeDecodeError, no_effects)"
  by code_simp

text \<open>
  C9: the verdicts depend on the loaded artifacts only. Two runs that loaded the same
  four artifacts, whatever their paths, file systems, warnings and output files, write
  reports with the same gates (names, flags and messages, in the same order) and the
  same overall flag; and when both return, they have printed the same summary.
\<close>

theorem verdicts_determined_by_artifacts:
  assumes "load_all w1 a1 no_effects = (Inr d, fx1)"
      and "load_all w2 a2 no_effects = (Inr d, fx2)"
      and "main py w1 a1 no_effects = (r1, out1)" and "(p1, rep1) \<in> set (files out1)"
      and "main py w2 a2 no_effects = (r2, out2)" and "(p2, rep2) \<in> set (files out2)"
  shows "gates rep1 = gates rep2 \<and> passed rep1 = passed rep2 \<and>
         (\<forall>c1 c2. r1 = Inr c1 \<and> r2 = Inr c2 \<longrightarrow> stdout out1 = stdout out2)"
proof -
  from main_outcome [OF assms(3)] assms(1,4) obtain gs1
    where 1: "evaluate_all py d = Inr gs1" "rep1 = build_result gs1"
      "\<forall>c. r1 = Inr c \<longrightarrow> stdout out1 = summary_lines gs1 (passed (build_result gs1))"
    by (auto simp: no_effects_def)
  from main_outcome [OF assms(5)] assms(2,6) obtain gs2
    where 2: "evaluate_all py d = Inr gs2" "rep2 = build_result gs2"
      "\<forall>c. r2 = Inr c \<longrightarrow> stdout out2 = summary_lines gs2 (passed (build_result gs2))"
    by (auto simp: no_effects_def)
  from 1 2 show ?thesis by auto
qed

theorem verdicts_determined_by_artifacts_witness:
  "load_all sample_world sample_args no_effects =
     (Inr (sample_integration, sample_perf, JNull, JNull),
      \<lparr>stderr = stderr sample_effects, files = [], stdout = []\<rparr>) \<and>
   load_all other_world other_args no_effects =
     (Inr (sample_integration, sample_perf, JNull, JNull), no_effects) \<and>
   main plain_sum sample_world sample_args no_effects = (Inr 1, sample_effects) \<and>
   (''out/gates.json'', sample_report) \<in> set (files sample_effects) \<and>
   main plain_sum other_world other_args no_effects = (Inr 1, other_effects) \<and>
   (''report.json'', sample_report) \<in> set (files other_effects) \<and>
   gates sample_report = gates sample_report \<and> passed sample_report = passed sample_report \<and>
   stdout sample_effects = stdout other_effects"
proof -
  have l1: "load_all sample_world sample_args no_effects =
      (Inr (sample_integration, sample_perf, JNull, JNull),
       \<lparr>stderr = stderr sample_effects, files = [], stdout = []\<rparr>)"
    by code_simp
  have l2: "load_all other_world other_args no_effects =
      (Inr (sample_integration, sample_perf, JNull, JNull), no_effects)"
    by code_simp
  from verdicts_determined_by_artifacts
         [OF l1 l2 sample_run sample_written other_run other_written]
  have "stdout sample_effects = stdout other_effects" by blast
  with l1 l2 sample_run sample_written other_run other_written
  show ?thesis by simp
qed

end
